theory Spec2Isabelle
  imports Main "HOL-Library.Word" "HOL-Library.Sublist"
begin

unbundle bit_operations_syntax

section \<open>Python values as the scripts see them\<close>

text \<open>
  Every script works on what \<^verbatim>\<open>response.json()\<close> or \<^verbatim>\<open>json.loads\<close> returns: \<^verbatim>\<open>None\<close>,
  booleans, integers, floats, strings, lists and dictionaries. A Python \<^verbatim>\<open>str\<close> is held as
  its UTF-8 encoding (a \<^typ>\<open>string\<close> is a list of bytes), a float as the 64 bits of its
  IEEE-754 double, a dictionary as an association list in insertion order in which the
  first binding of a key is the one looked up (a decoded JSON object lists a key once).
\<close>

datatype json =
    JNull
  | JBool bool
  | JInt int
  | JFloat "64 word"
  | JStr string
  | JArr "json list"
  | JObj "(string \<times> json) list"

datatype request_failure = ConnectionError | Timeout | HTTPError nat

text \<open>
  The exceptions the scripts can meet. \<open>RequestException\<close> stands for the family that
  \<^verbatim>\<open>requests\<close> raises (connection errors, timeouts, and the \<^verbatim>\<open>HTTPError\<close> that
  \<^verbatim>\<open>raise_for_status\<close> raises); it carries the text \<^verbatim>\<open>str(e)\<close> of the exception.
\<close>

datatype py_error =
    AttributeError
  | TypeError
  | KeyError
  | IndexError
  | JSONDecodeError
  | OSError
  | RequestException request_failure string

text \<open>Sequencing of steps that may raise: the first exception ends the computation.\<close>

definition bindE :: "py_error + 'a \<Rightarrow> ('a \<Rightarrow> py_error + 'b) \<Rightarrow> py_error + 'b" where
  "bindE m f = (case m of Inl e \<Rightarrow> Inl e | Inr v \<Rightarrow> f v)"

text \<open>Truth value testing, as \<^verbatim>\<open>if x\<close>, \<^verbatim>\<open>not x\<close>, \<^verbatim>\<open>x or y\<close> and \<^verbatim>\<open>x and y\<close> do it.
  A float is false when it is \<open>0.0\<close> or \<open>-0.0\<close>: all bits but the sign bit are zero.\<close>

fun truthy :: "json \<Rightarrow> bool" where
  "truthy JNull = False"
| "truthy (JBool b) = b"
| "truthy (JInt i) = (i \<noteq> 0)"
| "truthy (JFloat w) = (take_bit 63 w \<noteq> 0)"
| "truthy (JStr s) = (s \<noteq> [])"
| "truthy (JArr xs) = (xs \<noteq> [])"
| "truthy (JObj kvs) = (kvs \<noteq> [])"

definition py_or :: "json \<Rightarrow> json \<Rightarrow> json" where
  "py_or x y = (if truthy x then x else y)"

text \<open>\<^verbatim>\<open>d.get(k)\<close> and \<^verbatim>\<open>d.get(k, default)\<close>: only a dictionary has the method.\<close>

fun py_get_default :: "json \<Rightarrow> string \<Rightarrow> json \<Rightarrow> py_error + json" where
  "py_get_default (JObj kvs) k d = Inr (case map_of kvs k of None \<Rightarrow> d | Some v \<Rightarrow> v)"
| "py_get_default _ k d = Inl AttributeError"

definition py_get :: "json \<Rightarrow> string \<Rightarrow> py_error + json" where
  "py_get x k = py_get_default x k JNull"

text \<open>\<^verbatim>\<open>x[k]\<close> for a string key \<open>k\<close>: a dictionary without the key raises \<^verbatim>\<open>KeyError\<close>;
  a list or a string takes integer indices only and anything else is not subscriptable,
  which are both \<^verbatim>\<open>TypeError\<close>.\<close>

fun subscript :: "json \<Rightarrow> string \<Rightarrow> py_error + json" where
  "subscript (JObj kvs) k = (case map_of kvs k of None \<Rightarrow> Inl KeyError | Some v \<Rightarrow> Inr v)"
| "subscript _ k = Inl TypeError"

text \<open>The bytes of a string split into its code points: a byte \<open>10xxxxxx\<close> continues the
  code point that the byte before it belongs to.\<close>

definition continuation :: "char \<Rightarrow> bool" where
  "continuation c = ((128 :: nat) \<le> of_char c \<and> (of_char c :: nat) < 192)"

function code_points :: "string \<Rightarrow> string list" where
  "code_points [] = []"
| "code_points (c # cs) = (c # takeWhile continuation cs) # code_points (dropWhile continuation cs)"
  by pat_completeness auto
termination
  by (relation "measure length") (simp_all add: length_dropWhile_le less_Suc_eq_le)

text \<open>\<^verbatim>\<open>x[0]\<close>: the first element of a list, the first character of a string; a dictionary
  decoded from JSON has string keys only, so the key \<open>0\<close> is missing.\<close>

fun index0 :: "json \<Rightarrow> py_error + json" where
  "index0 (JArr []) = Inl IndexError"
| "index0 (JArr (x # xs)) = Inr x"
| "index0 (JStr []) = Inl IndexError"
| "index0 (JStr (c # cs)) = Inr (JStr (c # takeWhile continuation cs))"
| "index0 (JObj kvs) = Inl KeyError"
| "index0 _ = Inl TypeError"

text \<open>What a \<^verbatim>\<open>for\<close> loop runs over: the elements of a list, the characters of a string,
  the keys of a dictionary; nothing else here is iterable.\<close>

fun py_iter :: "json \<Rightarrow> py_error + json list" where
  "py_iter (JArr xs) = Inr xs"
| "py_iter (JStr s) = Inr (map JStr (code_points s))"
| "py_iter (JObj kvs) = Inr (map (\<lambda>kv. JStr (fst kv)) kvs)"
| "py_iter _ = Inl TypeError"

subsection \<open>Strings\<close>

text \<open>\<^verbatim>\<open>str.strip()\<close> removes the code points that \<^verbatim>\<open>str.isspace\<close> accepts: the ASCII
  ones, U+0085 and U+00A0 (two bytes each) and U+1680, U+2000 to U+200A, U+2028, U+2029,
  U+202F, U+205F and U+3000 (three bytes each).\<close>

definition ascii_space :: "char \<Rightarrow> bool" where
  "ascii_space c = (c \<in> set [CHR 0x09, CHR 0x0A, CHR 0x0B, CHR 0x0C, CHR 0x0D,
                               CHR 0x1C, CHR 0x1D, CHR 0x1E, CHR 0x1F, CHR 0x20])"

definition space2 :: "char \<Rightarrow> char \<Rightarrow> bool" where
  "space2 a b = (a = CHR 0xC2 \<and> (b = CHR 0x85 \<or> b = CHR 0xA0))"

definition space3 :: "char \<Rightarrow> char \<Rightarrow> char \<Rightarrow> bool" where
  "space3 a b c =
     ((a = CHR 0xE1 \<and> b = CHR 0x9A \<and> c = CHR 0x80) \<or>
      (a = CHR 0xE2 \<and> b = CHR 0x80 \<and>
         (((128 :: nat) \<le> of_char c \<and> (of_char c :: nat) \<le> 138) \<or>
          c = CHR 0xA8 \<or> c = CHR 0xA9 \<or> c = CHR 0xAF)) \<or>
      (a = CHR 0xE2 \<and> b = CHR 0x81 \<and> c = CHR 0x9F) \<or>
      (a = CHR 0xE3 \<and> b = CHR 0x80 \<and> c = CHR 0x80))"

text \<open>The number of bytes of the whitespace code point a string starts with, 0 when it
  starts with none.\<close>

fun space_len :: "string \<Rightarrow> nat" where
  "space_len (a # b # c # r) =
     (if ascii_space a then 1 else if space2 a b then 2 else if space3 a b c then 3 else 0)"
| "space_len [a, b] = (if ascii_space a then 1 else if space2 a b then 2 else 0)"
| "space_len [a] = (if ascii_space a then 1 else 0)"
| "space_len [] = 0"

text \<open>The same for the code point a string ends with, read off the reversed string.\<close>

fun space_len_rev :: "string \<Rightarrow> nat" where
  "space_len_rev (c # b # a # r) =
     (if ascii_space c then 1 else if space2 b c then 2 else if space3 a b c then 3 else 0)"
| "space_len_rev [c, b] = (if ascii_space c then 1 else if space2 b c then 2 else 0)"
| "space_len_rev [c] = (if ascii_space c then 1 else 0)"
| "space_len_rev [] = 0"

lemma space_len_le: "space_len s \<le> length s"
  by (induction s rule: space_len.induct) auto

lemma space_len_rev_le: "space_len_rev s \<le> length s"
  by (induction s rule: space_len_rev.induct) auto

function lstrip :: "string \<Rightarrow> string" where
  "lstrip s = (if space_len s = 0 then s else lstrip (drop (space_len s) s))"
  by pat_completeness auto
termination
proof (relation "measure length")
  show "wf (measure length)" by simp
next
  fix s :: string
  assume "space_len s \<noteq> 0"
  moreover have "space_len s \<le> length s" by (rule space_len_le)
  ultimately show "(drop (space_len s) s, s) \<in> measure length" by simp
qed

function lstrip_rev :: "string \<Rightarrow> string" where
  "lstrip_rev s = (if space_len_rev s = 0 then s else lstrip_rev (drop (space_len_rev s) s))"
  by pat_completeness auto
termination
proof (relation "measure length")
  show "wf (measure length)" by simp
next
  fix s :: string
  assume "space_len_rev s \<noteq> 0"
  moreover have "space_len_rev s \<le> length s" by (rule space_len_rev_le)
  ultimately show "(drop (space_len_rev s) s, s) \<in> measure length" by simp
qed

definition rstrip :: "string \<Rightarrow> string" where
  "rstrip s = rev (lstrip_rev (rev s))"

definition strip :: "string \<Rightarrow> string" where
  "strip s = rstrip (lstrip s)"

text \<open>\<^verbatim>\<open>s.strip(chars)\<close> for ASCII \<open>chars\<close>: the bytes of \<open>chars\<close> are dropped from both
  ends (an ASCII byte is never part of a longer code point).\<close>

definition strip_chars :: "string \<Rightarrow> string \<Rightarrow> string" where
  "strip_chars chars s =
     rev (dropWhile (\<lambda>c. c \<in> set chars) (rev (dropWhile (\<lambda>c. c \<in> set chars) s)))"

text \<open>The method call \<^verbatim>\<open>x.strip()\<close> on a value: only a string has it.\<close>

fun str_strip :: "json \<Rightarrow> py_error + string" where
  "str_strip (JStr s) = Inr (strip s)"
| "str_strip _ = Inl AttributeError"

text \<open>\<^verbatim>\<open>str(n)\<close> of an integer, in decimal.\<close>

fun str_nat :: "nat \<Rightarrow> string" where
  "str_nat n = (if n < 10 then [''0123456789'' ! n]
                else str_nat (n div 10) @ [''0123456789'' ! (n mod 10)])"

definition str_int :: "int \<Rightarrow> string" where
  "str_int i = (if i < 0 then CHR ''-'' # str_nat (nat (- i)) else str_nat (nat i))"

text \<open>How an f-string renders a value: a string as itself, \<^verbatim>\<open>None\<close>, booleans and
  integers by \<^verbatim>\<open>str\<close>. The \<^verbatim>\<open>repr\<close> of floats, lists and dictionaries is the
  interpreter's and is taken as the parameter \<open>repr\<close>.\<close>

fun py_format :: "(json \<Rightarrow> string) \<Rightarrow> json \<Rightarrow> string" where
  "py_format repr (JStr s) = s"
| "py_format repr JNull = ''None''"
| "py_format repr (JBool b) = (if b then ''True'' else ''False'')"
| "py_format repr (JInt i) = str_int i"
| "py_format repr v = repr v"

section \<open>The GE-list scripts: IGETC.py and calgetc.py\<close>

subsection \<open>Dates\<close>

text \<open>
  A \<^verbatim>\<open>datetime\<close> without time zone is its seven fields; one with a time zone carries its
  offset from UTC as well (in microseconds). \<^verbatim>\<open>datetime.utcnow()\<close> always returns one
  without time zone.
\<close>

record naive_datetime =
  year :: nat
  month :: nat
  day :: nat
  hour :: nat
  minute :: nat
  second :: nat
  microsecond :: nat

datatype datetime = Naive naive_datetime | Aware naive_datetime int

definition dt_fields :: "naive_datetime \<Rightarrow> nat list" where
  "dt_fields d = [year d, month d, day d, hour d, minute d, second d, microsecond d]"

fun lex_less :: "nat list \<Rightarrow> nat list \<Rightarrow> bool" where
  "lex_less (x # xs) (y # ys) = (x < y \<or> (x = y \<and> lex_less xs ys))"
| "lex_less [] (y # ys) = True"
| "lex_less xs [] = False"

definition naive_less :: "naive_datetime \<Rightarrow> naive_datetime \<Rightarrow> bool" where
  "naive_less a b = lex_less (dt_fields a) (dt_fields b)"

text \<open>\<^verbatim>\<open>end_dt > datetime.utcnow()\<close>: two datetimes without time zone compare field by
  field; comparing one with a time zone to one without raises \<^verbatim>\<open>TypeError\<close>.\<close>

fun later_than_utcnow :: "datetime \<Rightarrow> naive_datetime \<Rightarrow> py_error + bool" where
  "later_than_utcnow (Naive end_dt) utcnow = Inr (naive_less utcnow end_dt)"
| "later_than_utcnow (Aware end_dt off) utcnow = Inl TypeError"

subsection \<open>is_currently_approved\<close>

text \<open>
  \<^verbatim>\<open>datetime.fromisoformat\<close> is the standard library's parser, and which strings it
  accepts depends on the version of Python. It is the parameter \<open>fromisoformat\<close>: on a
  string it returns a datetime, or \<open>None\<close> when it raises \<^verbatim>\<open>ValueError\<close>; on anything
  that is not a string it raises \<^verbatim>\<open>TypeError\<close>. The parameter \<open>utcnow\<close> is the reading
  of the system clock that \<^verbatim>\<open>datetime.utcnow()\<close> returns in this call. Both scripts
  define the function with the same body.
\<close>

definition is_currently_approved ::
  "(string \<Rightarrow> datetime option) \<Rightarrow> naive_datetime \<Rightarrow> json \<Rightarrow> py_error + bool" where
  "is_currently_approved fromisoformat utcnow end_date_str =
     (if \<not> truthy end_date_str then Inr True
      else case end_date_str of
             JStr s \<Rightarrow>
               (case fromisoformat s of
                  None \<Rightarrow> Inr False
                | Some end_dt \<Rightarrow> later_than_utcnow end_dt utcnow)
           | _ \<Rightarrow> Inl TypeError)"

subsection \<open>get_csu_ge_courses and get_transfer_courses\<close>

text \<open>The comprehension \<^verbatim>\<open>[a.get("code") for a in ... if a.get("code")]\<close>.\<close>

fun transfer_area_codes :: "json list \<Rightarrow> py_error + json list" where
  "transfer_area_codes [] = Inr []"
| "transfer_area_codes (a # as) =
     bindE (py_get a ''code'') (\<lambda>cond.
       if truthy cond
       then bindE (py_get a ''code'') (\<lambda>code.
            bindE (transfer_area_codes as) (\<lambda>codes. Inr (code # codes)))
       else transfer_area_codes as)"

text \<open>The body of the loop over the course list, in the order of the source: the name
  of the course (lines 71 to 73), its transfer areas (lines 75 to 79), and the dictionary
  appended for the entry \<open>c\<close> (lines 81 to 91).\<close>

definition course_name :: "json \<Rightarrow> py_error + string" where
  "course_name c =
     bindE (py_get c ''identifier'') (\<lambda>i.
     bindE (str_strip (py_or i (JStr ''''))) (\<lambda>identifier.
     bindE (py_get c ''courseTitle'') (\<lambda>t.
     bindE (str_strip (py_or t (JStr ''''))) (\<lambda>title.
     Inr (strip_chars '' -'' (identifier @ '' - '' @ title))))))"

definition transfer_areas :: "json \<Rightarrow> py_error + json list" where
  "transfer_areas c =
     bindE (py_get c ''transferAreas'') (\<lambda>tas.
     bindE (py_iter (py_or tas (JArr []))) transfer_area_codes)"

definition course_out ::
  "(string \<Rightarrow> datetime option) \<Rightarrow> naive_datetime \<Rightarrow> json \<Rightarrow> py_error + json" where
  "course_out fromisoformat utcnow c =
     bindE (course_name c) (\<lambda>name.
     bindE (transfer_areas c) (\<lambda>areas.
     bindE (py_get c ''endDate'') (\<lambda>end_date.
     bindE (py_get c ''beginDate'') (\<lambda>begin_date.
     bindE (py_get c ''beginTermCode'') (\<lambda>begin_term.
     bindE (py_get c ''endTermCode'') (\<lambda>end_term.
     bindE (is_currently_approved fromisoformat utcnow end_date) (\<lambda>approved.
     Inr (JObj [
       (''course'', JStr name),
       (''transferAreas'', JArr areas),
       (''approvedDate'', begin_date),
       (''approvedTerm'', begin_term),
       (''removedDate'', end_date),
       (''removedTerm'', end_term),
       (''isCurrentlyApproved'', JBool approved)]))))))))"

text \<open>The loop. The clock is read once at most for each entry; \<open>clock i\<close> is its reading
  while the entry at position \<open>i\<close> is processed.\<close>

fun courses_loop ::
  "(string \<Rightarrow> datetime option) \<Rightarrow> (nat \<Rightarrow> naive_datetime) \<Rightarrow> nat \<Rightarrow> json list
     \<Rightarrow> py_error + json list" where
  "courses_loop fromisoformat clock i [] = Inr []"
| "courses_loop fromisoformat clock i (c # cs) =
     bindE (course_out fromisoformat (clock i) c) (\<lambda>out.
     bindE (courses_loop fromisoformat clock (Suc i) cs) (\<lambda>outs. Inr (out # outs)))"

text \<open>\<^verbatim>\<open>get_csu_ge_courses\<close> of IGETC.py, from the document \<open>data\<close> that
  \<^verbatim>\<open>fetch_api_data\<close> returned.\<close>

definition get_csu_ge_courses ::
  "(string \<Rightarrow> datetime option) \<Rightarrow> (nat \<Rightarrow> naive_datetime) \<Rightarrow> json \<Rightarrow> py_error + json" where
  "get_csu_ge_courses fromisoformat clock data =
     bindE (py_get_default data ''courseInformationList'' (JArr [])) (\<lambda>l.
     bindE (py_iter (py_or l (JArr []))) (\<lambda>cs.
     bindE (courses_loop fromisoformat clock 0 cs) (\<lambda>courses_out.
     bindE (py_get data ''institutionName'') (\<lambda>institution_name.
     bindE (py_get data ''academicYear'') (\<lambda>ay.
     bindE (py_get (py_or ay (JObj [])) ''code'') (\<lambda>academic_year.
     bindE (py_get data ''listType'') (\<lambda>list_type.
     Inr (JObj [
       (''institutionName'', institution_name),
       (''academicYear'', academic_year),
       (''listType'', list_type),
       (''courses'', JArr courses_out)]))))))))"

text \<open>\<^verbatim>\<open>get_transfer_courses\<close> of calgetc.py: the same, and the requested list type is
  echoed.\<close>

definition get_transfer_courses ::
  "(string \<Rightarrow> datetime option) \<Rightarrow> (nat \<Rightarrow> naive_datetime) \<Rightarrow> string \<Rightarrow> json
     \<Rightarrow> py_error + json" where
  "get_transfer_courses fromisoformat clock list_type_requested data =
     bindE (py_get_default data ''courseInformationList'' (JArr [])) (\<lambda>l.
     bindE (py_iter (py_or l (JArr []))) (\<lambda>cs.
     bindE (courses_loop fromisoformat clock 0 cs) (\<lambda>courses_out.
     bindE (py_get data ''institutionName'') (\<lambda>institution_name.
     bindE (py_get data ''academicYear'') (\<lambda>ay.
     bindE (py_get (py_or ay (JObj [])) ''code'') (\<lambda>academic_year.
     bindE (py_get data ''listType'') (\<lambda>list_type.
     Inr (JObj [
       (''institutionName'', institution_name),
       (''academicYear'', academic_year),
       (''listType'', list_type),
       (''listTypeRequested'', JStr list_type_requested),
       (''courses'', JArr courses_out)]))))))))"

section \<open>The articulation script: make_simple_transfers.py\<close>

subsection \<open>What the script meets outside itself\<close>

text \<open>
  The three calls \<^verbatim>\<open>requests.get(url)\<close>, \<^verbatim>\<open>response.raise_for_status()\<close> and
  \<^verbatim>\<open>response.json()\<close> either raise one of the exceptions of \<^verbatim>\<open>requests\<close> (a connection
  error, a timeout, or the \<^verbatim>\<open>HTTPError\<close> of a 4xx or 5xx status) or return the decoded
  body. A body that is not JSON is left out: the class of the exception it raises depends
  on the version of \<^verbatim>\<open>requests\<close>.
\<close>

datatype http_outcome = Raises request_failure string | Returns json



text \<open>What the run leaves behind: the lines printed, and the files written with the value
  that \<^verbatim>\<open>json.dump\<close> serialized into each.\<close>

record world =
  stdout :: "string list"
  files :: "(string \<times> json) list"

definition print :: "string \<Rightarrow> world \<Rightarrow> world" where
  "print line w = w\<lparr>stdout := stdout w @ [line]\<rparr>"

definition write_file :: "string \<Rightarrow> json \<Rightarrow> world \<Rightarrow> world" where
  "write_file path v w = w\<lparr>files := files w @ [(path, v)]\<rparr>"

text \<open>\<^verbatim>\<open>json.loads(x)\<close>: the parser of the standard library is the parameter \<open>loads\<close>, which
  returns \<open>None\<close> for a string that is not JSON; an argument that is not a string raises
  \<^verbatim>\<open>TypeError\<close>.\<close>

definition json_loads :: "(string \<Rightarrow> json option) \<Rightarrow> json \<Rightarrow> py_error + json" where
  "json_loads loads x =
     (case x of
        JStr s \<Rightarrow> (case loads s of None \<Rightarrow> Inl JSONDecodeError | Some v \<Rightarrow> Inr v)
      | _ \<Rightarrow> Inl TypeError)"

text \<open>\<^verbatim>\<open>'items' in item\<close>: a key of a dictionary, a substring of a string, an element of a
  list; anything else raises \<^verbatim>\<open>TypeError\<close>.\<close>

fun has_items :: "json \<Rightarrow> py_error + bool" where
  "has_items (JObj kvs) = Inr (map_of kvs ''items'' \<noteq> None)"
| "has_items (JStr s) = Inr (sublist ''items'' s)"
| "has_items (JArr xs) = Inr (JStr ''items'' \<in> set xs)"
| "has_items _ = Inl TypeError"

text \<open>\<^verbatim>\<open>d[k] = v\<close> on a dictionary: the value of an existing key is replaced, a new key is
  added last.\<close>

fun dict_set :: "string \<Rightarrow> json \<Rightarrow> (string \<times> json) list \<Rightarrow> (string \<times> json) list" where
  "dict_set k v [] = [(k, v)]"
| "dict_set k v ((k', v') # kvs) =
     (if k = k' then (k, v) # kvs else (k', v') # dict_set k v kvs)"

subsection \<open>fetch_api_data\<close>

text \<open>The fetcher of this script catches the exception, prints it and returns
  \<^verbatim>\<open>None\<close>.\<close>

definition fetch_api_data_transfers :: "http_outcome \<Rightarrow> world \<Rightarrow> json \<times> world" where
  "fetch_api_data_transfers outcome w =
     (case outcome of
        Returns body \<Rightarrow> (body, w)
      | Raises kind e \<Rightarrow> (JNull, print (''Error fetching data: '' @ e) w))"

subsection \<open>get_transfer_data\<close>

text \<open>The innermost loop (lines 64 and 65): one string for each destination course.\<close>

fun to_courses :: "(json \<Rightarrow> string) \<Rightarrow> json list \<Rightarrow> py_error + json list" where
  "to_courses repr [] = Inr []"
| "to_courses repr (to_course # rest) =
     bindE (subscript to_course ''prefix'') (\<lambda>prefix.
     bindE (subscript to_course ''courseNumber'') (\<lambda>number.
     bindE (subscript to_course ''courseTitle'') (\<lambda>title.
     bindE (to_courses repr rest) (\<lambda>strings.
     Inr (JStr (py_format repr prefix @ '' '' @ py_format repr number @ '': '' @
                py_format repr title) # strings)))))"

text \<open>The loop over the items of \<open>sendingArticulation\<close> (lines 62 to 65): the strings
  appended to \<open>transfers_to\<close>.\<close>

fun item_courses :: "(json \<Rightarrow> string) \<Rightarrow> json list \<Rightarrow> py_error + json list" where
  "item_courses repr [] = Inr []"
| "item_courses repr (item # rest) =
     bindE (has_items item) (\<lambda>has.
       if has
       then bindE (subscript item ''items'') (\<lambda>nested.
            bindE (py_iter nested) (\<lambda>to_list.
            bindE (to_courses repr to_list) (\<lambda>strings.
            bindE (item_courses repr rest) (\<lambda>more. Inr (strings @ more)))))
       else item_courses repr rest)"

text \<open>Lines 60 to 68: the value stored under \<open>transfers_to\<close>.\<close>

definition no_equivalent :: json where
  "no_equivalent = JArr [JStr ''No equivalent course'']"

definition transfers_to :: "(json \<Rightarrow> string) \<Rightarrow> json \<Rightarrow> py_error + json" where
  "transfers_to repr course =
     bindE (py_get course ''sendingArticulation'') (\<lambda>sa.
     bindE (if truthy sa
            then bindE (subscript course ''sendingArticulation'') (\<lambda>sa'. py_get sa' ''items'')
            else Inr sa) (\<lambda>cond.
       if truthy cond
       then bindE (subscript course ''sendingArticulation'') (\<lambda>sa'.
            bindE (subscript sa' ''items'') (\<lambda>items.
            bindE (py_iter items) (\<lambda>item_list.
            bindE (item_courses repr item_list) (\<lambda>strings.
            Inr (if strings \<noteq> [] then JArr strings else no_equivalent)))))
       else Inr no_equivalent))"

text \<open>Lines 50 to 70: the entry appended for an articulation of type \<open>Course\<close>.\<close>

definition transfer :: "(json \<Rightarrow> string) \<Rightarrow> json \<Rightarrow> py_error + json" where
  "transfer repr course =
     bindE (subscript course ''course'') (\<lambda>course_info.
     bindE (subscript course_info ''prefix'') (\<lambda>prefix.
     bindE (subscript course_info ''courseNumber'') (\<lambda>number.
     bindE (subscript course_info ''courseTitle'') (\<lambda>title.
     bindE (py_get_default course_info ''minUnits'' (JStr ''N/A'')) (\<lambda>units.
     bindE (subscript course_info ''department'') (\<lambda>department.
     bindE (transfers_to repr course) (\<lambda>tt.
     Inr (JObj (dict_set ''transfers_to'' tt [
       (''from_course'', JStr (py_format repr prefix @ '' '' @ py_format repr number)),
       (''course_title'', title),
       (''units'', units),
       (''department'', department)])))))))))"

text \<open>The loop over the articulations of one department (lines 48 to 70).\<close>

fun dept_transfers :: "(json \<Rightarrow> string) \<Rightarrow> json list \<Rightarrow> py_error + json list" where
  "dept_transfers repr [] = Inr []"
| "dept_transfers repr (course # rest) =
     bindE (subscript course ''type'') (\<lambda>type.
       if type = JStr ''Course''
       then bindE (transfer repr course) (\<lambda>entry.
            bindE (dept_transfers repr rest) (\<lambda>entries. Inr (entry # entries)))
       else dept_transfers repr rest)"

text \<open>The loop over the department groups (lines 47 to 70).\<close>

fun all_transfers :: "(json \<Rightarrow> string) \<Rightarrow> json list \<Rightarrow> py_error + json list" where
  "all_transfers repr [] = Inr []"
| "all_transfers repr (dept # rest) =
     bindE (subscript dept ''articulations'') (\<lambda>articulations.
     bindE (py_iter articulations) (\<lambda>courses.
     bindE (dept_transfers repr courses) (\<lambda>entries.
     bindE (all_transfers repr rest) (\<lambda>more. Inr (entries @ more)))))"

text \<open>Lines 30 to 72: the transformation of a document that was fetched.\<close>

definition simple_data ::
  "(string \<Rightarrow> json option) \<Rightarrow> (json \<Rightarrow> string) \<Rightarrow> json \<Rightarrow> py_error + json" where
  "simple_data loads repr raw_data =
     bindE (subscript raw_data ''result'') (\<lambda>result.
     bindE (subscript result ''receivingInstitution'') (\<lambda>r.
     bindE (json_loads loads r) (\<lambda>receiving.
     bindE (subscript result ''sendingInstitution'') (\<lambda>s.
     bindE (json_loads loads s) (\<lambda>sending.
     bindE (subscript result ''academicYear'') (\<lambda>y.
     bindE (json_loads loads y) (\<lambda>academic_year.
     bindE (subscript result ''articulations'') (\<lambda>a.
     bindE (json_loads loads a) (\<lambda>articulations.
     bindE (subscript sending ''names'') (\<lambda>sending_names.
     bindE (index0 sending_names) (\<lambda>sending_first.
     bindE (subscript sending_first ''name'') (\<lambda>from_college.
     bindE (subscript receiving ''names'') (\<lambda>receiving_names.
     bindE (index0 receiving_names) (\<lambda>receiving_first.
     bindE (subscript receiving_first ''name'') (\<lambda>to_college.
     bindE (subscript academic_year ''code'') (\<lambda>code.
     bindE (py_iter articulations) (\<lambda>depts.
     bindE (all_transfers repr depts) (\<lambda>transfers.
     Inr (JObj [
       (''from_college'', from_college),
       (''to_college'', to_college),
       (''academic_year'', code),
       (''transfers'', JArr transfers)])))))))))))))))))))"

text \<open>\<^verbatim>\<open>get_transfer_data\<close>: the fetch, the early return of \<^verbatim>\<open>None\<close> when nothing was
  fetched, and the transformation.\<close>

definition get_transfer_data ::
  "(string \<Rightarrow> json option) \<Rightarrow> (json \<Rightarrow> string) \<Rightarrow> http_outcome \<Rightarrow> world
     \<Rightarrow> (py_error + json) \<times> world" where
  "get_transfer_data loads repr outcome w =
     (case fetch_api_data_transfers outcome w of
        (raw_data, w') \<Rightarrow>
          (if \<not> truthy raw_data then Inr JNull else simple_data loads repr raw_data, w'))"

subsection \<open>main\<close>

text \<open>The arrow U+2192 of the last line printed, in UTF-8.\<close>

definition arrow :: string where
  "arrow = [CHR 0xE2, CHR 0x86, CHR 0x92]"

text \<open>\<^verbatim>\<open>main\<close>. The parameter \<open>json_path\<close> is the path of \<open>simple_transfers.json\<close> beside the
  script, and \<open>writable\<close> tells whether \<^verbatim>\<open>open(json_path, 'w')\<close> succeeds. The result is the
  exception that ends the run, if any, and the world after it.\<close>

definition main_transfers ::
  "(string \<Rightarrow> json option) \<Rightarrow> (json \<Rightarrow> string) \<Rightarrow> string \<Rightarrow> bool \<Rightarrow> http_outcome \<Rightarrow> world
     \<Rightarrow> (py_error + unit) \<times> world" where
  "main_transfers loads repr json_path writable outcome w =
     (case get_transfer_data loads repr outcome w of
        (Inl e, w') \<Rightarrow> (Inl e, w')
      | (Inr transfer_data, w') \<Rightarrow>
          if \<not> truthy transfer_data
          then (Inr (), print ''Failed to fetch data from API'' w')
          else if \<not> writable then (Inl OSError, w')
          else
            let w'' = write_file json_path transfer_data w' in
            (case bindE (subscript transfer_data ''transfers'') (\<lambda>ts.
                  bindE (py_iter ts) (\<lambda>l.
                  Inr (''Created simple_transfers.json with '' @ str_nat (length l) @
                       '' courses''))) of
               Inl e \<Rightarrow> (Inl e, w'')
             | Inr line1 \<Rightarrow>
                 (case bindE (subscript transfer_data ''from_college'') (\<lambda>f.
                       bindE (subscript transfer_data ''to_college'') (\<lambda>t.
                       Inr (py_format repr f @ '' '' @ arrow @ '' '' @ py_format repr t))) of
                    Inl e \<Rightarrow> (Inl e, print line1 w'')
                  | Inr line2 \<Rightarrow> (Inr (), print line2 (print line1 w'')))))"

section \<open>The institution directory: get_institutions.py\<close>

text \<open>The comprehension of lines 11 to 17.\<close>

fun parsed :: "json list \<Rightarrow> py_error + json list" where
  "parsed [] = Inr []"
| "parsed (inst # rest) =
     bindE (py_get inst ''names'') (\<lambda>names.
     bindE (if truthy names
            then bindE (subscript inst ''names'') (\<lambda>ns.
                 bindE (index0 ns) (\<lambda>first. subscript first ''name''))
            else Inr JNull) (\<lambda>school_name.
     bindE (subscript inst ''id'') (\<lambda>code.
     bindE (parsed rest) (\<lambda>records.
     Inr (JObj [(''schoolName'', school_name), (''code'', code)] # records)))))"

text \<open>\<^verbatim>\<open>main\<close>: this script does not catch the exceptions of \<^verbatim>\<open>requests\<close>.\<close>

definition main_institutions :: "bool \<Rightarrow> http_outcome \<Rightarrow> world \<Rightarrow> (py_error + unit) \<times> world" where
  "main_institutions writable outcome w =
     (case outcome of
        Raises kind e \<Rightarrow> (Inl (RequestException kind e), w)
      | Returns institutions \<Rightarrow>
          (case bindE (py_iter institutions) parsed of
             Inl e \<Rightarrow> (Inl e, w)
           | Inr records \<Rightarrow>
               if \<not> writable then (Inl OSError, w)
               else (Inr (),
                 print (''Wrote '' @ str_nat (length records) @ '' schools to school_codes.txt'')
                   (write_file ''school_codes.txt'' (JArr records) w))))"

section \<open>Notions of the specification\<close>

text \<open>The value of \<^verbatim>\<open>d.get(k)\<close> for the dictionary with the bindings \<open>kvs\<close>.\<close>

definition field :: "(string \<times> json) list \<Rightarrow> string \<Rightarrow> json" where
  "field kvs k = (case map_of kvs k of None \<Rightarrow> JNull | Some v \<Rightarrow> v)"

text \<open>The identifier and the title of a raw course entry are absent, \<^verbatim>\<open>None\<close> or a
  string; an absent part counts as the empty string.\<close>

definition optional_str :: "json \<Rightarrow> bool" where
  "optional_str v = (case v of JNull \<Rightarrow> True | JStr s \<Rightarrow> True | _ \<Rightarrow> False)"

definition str_or_empty :: "json \<Rightarrow> string" where
  "str_or_empty v = (case v of JStr s \<Rightarrow> s | _ \<Rightarrow> [])"

definition space_or_hyphen :: "char \<Rightarrow> bool" where
  "space_or_hyphen c = (c = CHR '' '' \<or> c = CHR ''-'')"

text \<open>The identifier and the title of the entry with the bindings \<open>kvs\<close>, each stripped of
  whitespace, joined as \<open>identifier - title\<close>.\<close>

definition joined_name :: "(string \<times> json) list \<Rightarrow> string" where
  "joined_name kvs =
     strip (str_or_empty (field kvs ''identifier'')) @ '' - '' @
     strip (str_or_empty (field kvs ''courseTitle''))"

text \<open>A JSON object.\<close>

definition is_obj :: "json \<Rightarrow> bool" where
  "is_obj v = (case v of JObj kvs \<Rightarrow> True | _ \<Rightarrow> False)"

text \<open>The \<open>code\<close> field of a transfer-area entry, \<^verbatim>\<open>None\<close> when the entry has none.\<close>

definition code_of :: "json \<Rightarrow> json" where
  "code_of a = (case a of JObj kvs \<Rightarrow> field kvs ''code'' | _ \<Rightarrow> JNull)"

text \<open>The value of \<^verbatim>\<open>data.get("courseInformationList", []) or []\<close>.\<close>

definition raw_course_list :: "(string \<times> json) list \<Rightarrow> json" where
  "raw_course_list kvs =
     py_or (case map_of kvs ''courseInformationList'' of None \<Rightarrow> JArr [] | Some v \<Rightarrow> v) (JArr [])"

text \<open>The academic year of a document is absent, \<^verbatim>\<open>None\<close> (or falsy otherwise), or an
  object.\<close>

definition optional_obj :: "json \<Rightarrow> bool" where
  "optional_obj v = (\<not> truthy v \<or> is_obj v)"

text \<open>The output of the GE-list transformer for the top-level bindings \<open>kvs\<close> and the
  normalized courses \<open>outs\<close>.\<close>

definition ge_output :: "(string \<times> json) list \<Rightarrow> json list \<Rightarrow> json" where
  "ge_output kvs outs = JObj [
     (''institutionName'', field kvs ''institutionName''),
     (''academicYear'', code_of (field kvs ''academicYear'')),
     (''listType'', field kvs ''listType''),
     (''courses'', JArr outs)]"

text \<open>The end date of an entry, when it is a non-empty string that parses to a datetime
  without time zone: the one case in which the approval rule reads the clock and returns.\<close>

definition parsed_end :: "(string \<Rightarrow> datetime option) \<Rightarrow> json \<Rightarrow> naive_datetime option" where
  "parsed_end fromisoformat c =
     (case c of
        JObj kvs \<Rightarrow>
          (case field kvs ''endDate'' of
             JStr s \<Rightarrow>
               (if s = [] then None
                else case fromisoformat s of Some (Naive d) \<Rightarrow> Some d | _ \<Rightarrow> None)
           | _ \<Rightarrow> None)
      | _ \<Rightarrow> None)"

text \<open>The entries that the loop of the transformer runs over.\<close>

definition course_entries :: "json \<Rightarrow> json list" where
  "course_entries data =
     (case data of
        JObj kvs \<Rightarrow> (case py_iter (raw_course_list kvs) of Inr cs \<Rightarrow> cs | Inl e \<Rightarrow> [])
      | _ \<Rightarrow> [])"

text \<open>Two runs read the clock on the same side of every end date: \<open>clock1\<close> and \<open>clock2\<close>
  are the readings of the two runs, \<open>i\<close> the position of the first entry of \<open>cs\<close>.\<close>

fun same_side ::
  "(string \<Rightarrow> datetime option) \<Rightarrow> (nat \<Rightarrow> naive_datetime) \<Rightarrow> (nat \<Rightarrow> naive_datetime) \<Rightarrow> nat
     \<Rightarrow> json list \<Rightarrow> bool" where
  "same_side fromisoformat clock1 clock2 i [] = True"
| "same_side fromisoformat clock1 clock2 i (c # cs) =
     ((case parsed_end fromisoformat c of
         None \<Rightarrow> True
       | Some d \<Rightarrow> naive_less (clock1 i) d = naive_less (clock2 i) d) \<and>
      same_side fromisoformat clock1 clock2 (Suc i) cs)"

text \<open>An articulation entry whose \<open>type\<close> is \<open>Course\<close>.\<close>

definition is_course :: "json \<Rightarrow> bool" where
  "is_course c = (subscript c ''type'' = Inr (JStr ''Course''))"

text \<open>The articulation entries of a department group, and of a list of groups, in
  order.\<close>

definition dept_courses :: "json \<Rightarrow> json list" where
  "dept_courses dept =
     (case bindE (subscript dept ''articulations'') py_iter of Inr cs \<Rightarrow> cs | Inl e \<Rightarrow> [])"

definition all_courses :: "json list \<Rightarrow> json list" where
  "all_courses depts = concat (map dept_courses depts)"

text \<open>An emitted entry in which \<open>transfers_to\<close> is set to a non-empty list.\<close>

definition transfers_to_set :: "json \<Rightarrow> bool" where
  "transfers_to_set entry =
     (case entry of
        JObj kvs \<Rightarrow>
          (case map_of kvs ''transfers_to'' of Some (JArr xs) \<Rightarrow> xs \<noteq> [] | _ \<Rightarrow> False)
      | _ \<Rightarrow> False)"


text \<open>A destination course has a prefix, a number and a title, and renders as
  \<open>prefix number: title\<close>.\<close>

definition wf_to_course :: "json \<Rightarrow> bool" where
  "wf_to_course tc =
     (case tc of
        JObj kvs \<Rightarrow> map_of kvs ''prefix'' \<noteq> None \<and> map_of kvs ''courseNumber'' \<noteq> None \<and>
                    map_of kvs ''courseTitle'' \<noteq> None
      | _ \<Rightarrow> False)"

definition dest_string :: "(json \<Rightarrow> string) \<Rightarrow> json \<Rightarrow> json" where
  "dest_string repr tc =
     (case tc of
        JObj kvs \<Rightarrow>
          JStr (py_format repr (field kvs ''prefix'') @ '' '' @
                py_format repr (field kvs ''courseNumber'') @ '': '' @
                py_format repr (field kvs ''courseTitle''))
      | _ \<Rightarrow> JNull)"

text \<open>An item of \<open>sendingArticulation.items\<close> is an object; its nested \<open>items\<close>, when it has
  them, are a list of destination courses.\<close>

definition wf_item :: "json \<Rightarrow> bool" where
  "wf_item item =
     (case item of
        JObj kvs \<Rightarrow>
          (case map_of kvs ''items'' of
             None \<Rightarrow> True
           | Some (JArr tcs) \<Rightarrow> list_all wf_to_course tcs
           | _ \<Rightarrow> False)
      | _ \<Rightarrow> False)"

definition lacks_nested :: "json \<Rightarrow> bool" where
  "lacks_nested item = (case item of JObj kvs \<Rightarrow> map_of kvs ''items'' = None | _ \<Rightarrow> False)"

text \<open>The destination strings collected from the nested items, in order.\<close>

definition item_strings :: "(json \<Rightarrow> string) \<Rightarrow> json \<Rightarrow> json list" where
  "item_strings repr item =
     (case item of
        JObj kvs \<Rightarrow>
          (case map_of kvs ''items'' of
             Some (JArr tcs) \<Rightarrow> map (dest_string repr) tcs
           | _ \<Rightarrow> [])
      | _ \<Rightarrow> [])"

definition destinations :: "(json \<Rightarrow> string) \<Rightarrow> json list \<Rightarrow> json list" where
  "destinations repr items = concat (map (item_strings repr) items)"

text \<open>A department group is an object with a list of articulation entries, and an entry
  has a type.\<close>

definition wf_dept :: "json \<Rightarrow> bool" where
  "wf_dept dept =
     (case dept of
        JObj kvs \<Rightarrow> (case map_of kvs ''articulations'' of Some (JArr cs) \<Rightarrow> True | _ \<Rightarrow> False)
      | _ \<Rightarrow> False)"

definition has_type :: "json \<Rightarrow> bool" where
  "has_type c = (case subscript c ''type'' of Inr t \<Rightarrow> True | Inl e \<Rightarrow> False)"

text \<open>The \<open>names\<close> of an institution are absent, \<^verbatim>\<open>None\<close> or empty, or a list whose first
  entry is an object with a \<open>name\<close>.\<close>

definition wf_names :: "json \<Rightarrow> bool" where
  "wf_names v =
     (case v of
        JArr (JObj n # rest) \<Rightarrow> map_of n ''name'' \<noteq> None
      | _ \<Rightarrow> \<not> truthy v)"

definition wf_inst :: "json \<Rightarrow> bool" where
  "wf_inst inst = (case inst of JObj kvs \<Rightarrow> wf_names (field kvs ''names'') | _ \<Rightarrow> False)"

definition has_id :: "json \<Rightarrow> bool" where
  "has_id inst = (case inst of JObj kvs \<Rightarrow> map_of kvs ''id'' \<noteq> None | _ \<Rightarrow> False)"

text \<open>The record of an institution: the name of the first entry of its names, or
  \<^verbatim>\<open>None\<close>, and its id.\<close>

definition school_name :: "(string \<times> json) list \<Rightarrow> json" where
  "school_name kvs =
     (case field kvs ''names'' of
        JArr (JObj n # rest) \<Rightarrow> field n ''name''
      | _ \<Rightarrow> JNull)"

definition record_of :: "json \<Rightarrow> json" where
  "record_of inst =
     (case inst of
        JObj kvs \<Rightarrow> JObj [(''schoolName'', school_name kvs), (''code'', field kvs ''id'')]
      | _ \<Rightarrow> JNull)"

text \<open>A whitespace code point in UTF-8, and a string made of whitespace code points
  only.\<close>

definition space_point :: "string \<Rightarrow> bool" where
  "space_point w =
     (case w of
        [a] \<Rightarrow> ascii_space a
      | [a, b] \<Rightarrow> space2 a b
      | [a, b, c] \<Rightarrow> space3 a b c
      | _ \<Rightarrow> False)"

definition all_space :: "string \<Rightarrow> bool" where
  "all_space p = (\<exists>ws. p = concat ws \<and> list_all space_point ws)"



section \<open>Inputs of the examples\<close>

text \<open>The clock reading and the results of \<^verbatim>\<open>datetime.fromisoformat\<close> that the examples below
  use: a date in the future, a date in the past, a date-time with a UTC offset (parsed to a
  datetime with time zone), and any other string taken as malformed. The examples
  evaluate the parser on \<open>2999-01-01\<close>, \<open>2000-01-01\<close>, \<open>2025-06-30\<close>,
  \<open>2030-01-01T00:00:00+00:00\<close> and \<open>not-a-date\<close> only, where every version of Python that
  has the function agrees with it.\<close>

definition now_2024 :: naive_datetime where
  "now_2024 = \<lparr>year = 2024, month = 1, day = 1, hour = 0, minute = 0, second = 0, microsecond = 0\<rparr>"

definition fromisoformat_sample :: "string \<Rightarrow> datetime option" where
  "fromisoformat_sample s =
     (if s = ''2999-01-01'' then
        Some (Naive \<lparr>year = 2999, month = 1, day = 1, hour = 0, minute = 0, second = 0, microsecond = 0\<rparr>)
      else if s = ''2000-01-01'' then
        Some (Naive \<lparr>year = 2000, month = 1, day = 1, hour = 0, minute = 0, second = 0, microsecond = 0\<rparr>)
      else if s = ''2025-06-30'' then
        Some (Naive \<lparr>year = 2025, month = 6, day = 30, hour = 0, minute = 0, second = 0, microsecond = 0\<rparr>)
      else if s = ''2030-01-01T00:00:00+00:00'' then
        Some (Aware \<lparr>year = 2030, month = 1, day = 1, hour = 0, minute = 0, second = 0, microsecond = 0\<rparr> 0)
      else None)"

definition math_100 :: "(string \<times> json) list" where
  "math_100 = [(''identifier'', JStr ''MATH 100''), (''courseTitle'', JStr '''')]"

definition calculus :: "(string \<times> json) list" where
  "calculus = [(''identifier'', JStr ''''), (''courseTitle'', JStr ''Calculus'')]"

definition spaced_entry :: "(string \<times> json) list" where
  "spaced_entry = [(''identifier'', JStr ''  MATH 100 ''),
     (''courseTitle'', JStr (CHR 0x09 # ''Calculus I'' @ [CHR 0x0D, CHR 0x0A]))]"

text \<open>An identifier between a no-break space (U+00A0) and an em space (U+2003).\<close>

definition nbsp_entry :: "(string \<times> json) list" where
  "nbsp_entry = [(''identifier'',
     JStr ([CHR 0xC2, CHR 0xA0] @ ''PHYS 4A'' @ [CHR 0xE2, CHR 0x80, CHR 0x83]))]"

definition engl_1a :: "(string \<times> json) list" where
  "engl_1a = [(''identifier'', JStr ''ENGL 1A''), (''courseTitle'', JStr ''Composition''),
     (''transferAreas'', JArr [JObj [(''code'', JStr ''C2'')]]),
     (''beginDate'', JStr ''2020-08-01''), (''endDate'', JNull)]"

definition engl_1a_out :: "(string \<times> json) list" where
  "engl_1a_out = [(''course'', JStr ''ENGL 1A - Composition''),
     (''transferAreas'', JArr [JStr ''C2'']),
     (''approvedDate'', JStr ''2020-08-01''), (''approvedTerm'', JNull),
     (''removedDate'', JNull), (''removedTerm'', JNull),
     (''isCurrentlyApproved'', JBool True)]"

definition three_areas :: "json list" where
  "three_areas = [JObj [(''code'', JStr ''A1'')], JObj [], JObj [(''code'', JStr ''B2'')]]"

definition clock_2024 :: "nat \<Rightarrow> naive_datetime" where
  "clock_2024 i = now_2024"

definition one_course_doc :: "(string \<times> json) list" where
  "one_course_doc = [(''courseInformationList'', JArr [JObj engl_1a]), (''academicYear'', JObj [])]"

definition now_2026 :: naive_datetime where
  "now_2026 = \<lparr>year = 2026, month = 1, day = 1, hour = 0, minute = 0, second = 0, microsecond = 0\<rparr>"

definition clock_2026 :: "nat \<Rightarrow> naive_datetime" where
  "clock_2026 i = now_2026"

definition expiring_doc :: "(string \<times> json) list" where
  "expiring_doc = [(''courseInformationList'',
     JArr [JObj [(''identifier'', JStr ''HIST 17A''), (''endDate'', JStr ''2025-06-30'')]])]"

definition expired_doc :: "(string \<times> json) list" where
  "expired_doc = [(''courseInformationList'',
     JArr [JObj [(''identifier'', JStr ''HIST 17A''), (''endDate'', JStr ''2000-01-01'')]])]"

definition expiring_out :: "bool \<Rightarrow> json" where
  "expiring_out approved = JObj [(''institutionName'', JNull), (''academicYear'', JNull),
     (''listType'', JNull),
     (''courses'', JArr [JObj [(''course'', JStr ''HIST 17A''),
        (''transferAreas'', JArr []), (''approvedDate'', JNull), (''approvedTerm'', JNull),
        (''removedDate'', JStr ''2025-06-30''), (''removedTerm'', JNull),
        (''isCurrentlyApproved'', JBool approved)]])]"

text \<open>The articulation examples render strings only; the \<^verbatim>\<open>repr\<close> of the examples is
  never asked for a float, a list or a dictionary.\<close>

definition repr_sample :: "json \<Rightarrow> string" where
  "repr_sample v = []"

definition cs_1 :: json where
  "cs_1 = JObj [(''type'', JStr ''Course''),
     (''course'', JObj [(''prefix'', JStr ''CS''), (''courseNumber'', JStr ''1''),
        (''courseTitle'', JStr ''Programming''), (''minUnits'', JInt 4),
        (''department'', JStr ''Computer Science'')]),
     (''sendingArticulation'', JObj [(''items'', JArr [JObj [(''items'', JArr [
        JObj [(''prefix'', JStr ''CS''), (''courseNumber'', JStr ''101''),
              (''courseTitle'', JStr ''Intro'')]])]])])]"

definition cs_1_out :: json where
  "cs_1_out = JObj [(''from_course'', JStr ''CS 1''), (''course_title'', JStr ''Programming''),
     (''units'', JInt 4), (''department'', JStr ''Computer Science''),
     (''transfers_to'', JArr [JStr ''CS 101: Intro''])]"

definition phil_6 :: json where
  "phil_6 = JObj [(''type'', JStr ''Course''),
     (''course'', JObj [(''prefix'', JStr ''PHIL''), (''courseNumber'', JStr ''6''),
        (''courseTitle'', JStr ''Logic''), (''department'', JStr ''Philosophy'')])]"

definition phil_6_out :: json where
  "phil_6_out = JObj [(''from_course'', JStr ''PHIL 6''), (''course_title'', JStr ''Logic''),
     (''units'', JStr ''N/A''), (''department'', JStr ''Philosophy''),
     (''transfers_to'', JArr [JStr ''No equivalent course''])]"

definition placeholder :: json where
  "placeholder = JObj [(''type'', JStr ''NoCourseArticulated'')]"

definition one_dept :: "json list" where
  "one_dept = [JObj [(''name'', JStr ''All Departments''),
     (''articulations'', JArr [cs_1, placeholder, phil_6])]]"

definition cs_1_info :: "(string \<times> json) list" where
  "cs_1_info = [(''prefix'', JStr ''CS''), (''courseNumber'', JStr ''1''),
     (''courseTitle'', JStr ''Programming''), (''minUnits'', JInt 4),
     (''department'', JStr ''Computer Science'')]"

definition phil_6_info :: "(string \<times> json) list" where
  "phil_6_info = [(''prefix'', JStr ''PHIL''), (''courseNumber'', JStr ''6''),
     (''courseTitle'', JStr ''Logic''), (''department'', JStr ''Philosophy'')]"

definition cs_1_fields :: "(string \<times> json) list" where
  "cs_1_fields = [(''type'', JStr ''Course''),
     (''course'', JObj cs_1_info),
     (''sendingArticulation'', JObj [(''items'', JArr [JObj [(''items'', JArr [
        JObj [(''prefix'', JStr ''CS''), (''courseNumber'', JStr ''101''),
              (''courseTitle'', JStr ''Intro'')]])]])])]"

definition sample_entry :: "json \<Rightarrow> json" where
  "sample_entry c = (if c = cs_1 then cs_1_out else phil_6_out)"

definition empty_nested :: json where
  "empty_nested = JObj [(''items'', JArr [])]"

definition hist_17 :: json where
  "hist_17 = JObj [(''type'', JStr ''Course''),
     (''course'', JObj [(''prefix'', JStr ''HIST''), (''courseNumber'', JStr ''17''),
        (''courseTitle'', JStr ''US History''), (''department'', JStr ''History'')]),
     (''sendingArticulation'', JObj [(''items'', JArr [empty_nested])])]"

definition two_schools :: "json list" where
  "two_schools = [
     JObj [(''id'', JInt 5), (''names'', JArr [JObj [(''name'', JStr ''Allan Hancock College'')]])],
     JObj [(''id'', JInt 6), (''names'', JArr [])]]"

definition school_without_id :: "json list" where
  "school_without_id = [JObj [(''names'', JArr [JObj [(''name'', JStr ''Allan Hancock College'')]])]]"

definition empty_world :: world where
  "empty_world = \<lparr>stdout = [], files = []\<rparr>"





section \<open>The approval rule\<close>

lemma lex_less_irrefl: "\<not> lex_less xs xs"
  by (induction xs) auto

lemma naive_less_irrefl: "\<not> naive_less d d"
  by (simp add: naive_less_def lex_less_irrefl)

lemma lex_less_trans: "lex_less xs ys \<Longrightarrow> lex_less ys zs \<Longrightarrow> lex_less xs zs"
proof (induction xs ys arbitrary: zs rule: lex_less.induct)
  case (1 x xs y ys)
  then show ?case by (cases zs) auto
next
  case (2 y ys)
  then show ?case by (cases zs) auto
next
  case (3 xs)
  then show ?case by simp
qed

lemma naive_less_trans: "naive_less a b \<Longrightarrow> naive_less b c \<Longrightarrow> naive_less a c"
  unfolding naive_less_def by (rule lex_less_trans)

text \<open>
  The rule case by case. It answers true for an end date that is \<^verbatim>\<open>None\<close> or the empty
  string. For a non-empty string it answers false when parsing fails, and when the string
  parses to a datetime without time zone it answers whether the clock reading is strictly
  before that datetime (so false at the boundary instant). When the string parses to a
  datetime with a time zone, the comparison with the clock reading raises
  \<^verbatim>\<open>TypeError\<close>, which the \<^verbatim>\<open>except ValueError\<close> does not catch.
\<close>

lemma is_currently_approved_rule:
  "is_currently_approved fi now JNull = Inr True \<and>
   is_currently_approved fi now (JStr '''') = Inr True \<and>
   (s \<noteq> [] \<longrightarrow> fi s = None \<longrightarrow> is_currently_approved fi now (JStr s) = Inr False) \<and>
   (s \<noteq> [] \<longrightarrow> fi s = Some (Naive d) \<longrightarrow>
      is_currently_approved fi now (JStr s) = Inr (naive_less now d)) \<and>
   (s \<noteq> [] \<longrightarrow> fi s = Some (Naive now) \<longrightarrow> is_currently_approved fi now (JStr s) = Inr False) \<and>
   (s \<noteq> [] \<longrightarrow> fi s = Some (Aware d off) \<longrightarrow>
      is_currently_approved fi now (JStr s) = Inl TypeError)"
proof -
  have absent: "is_currently_approved fi now JNull = Inr True"
    by (simp add: is_currently_approved_def)
  have empty: "is_currently_approved fi now (JStr '''') = Inr True"
    by (simp add: is_currently_approved_def)
  have parsed: "is_currently_approved fi now (JStr s) =
      (case fi s of None \<Rightarrow> Inr False | Some end_dt \<Rightarrow> later_than_utcnow end_dt now)"
    if "s \<noteq> []"
    using that by (simp add: is_currently_approved_def)
  show ?thesis
    using absent empty parsed by (simp add: naive_less_irrefl)
qed

lemma is_currently_approved_rule_examples:
  "is_currently_approved fromisoformat_sample now_2024 (JStr ''2999-01-01'') = Inr True \<and>
   is_currently_approved fromisoformat_sample now_2024 (JStr ''2000-01-01'') = Inr False \<and>
   is_currently_approved fromisoformat_sample now_2024 (JStr ''not-a-date'') = Inr False"
  using is_currently_approved_rule [of fromisoformat_sample now_2024 "''2999-01-01''"
      "\<lparr>year = 2999, month = 1, day = 1, hour = 0, minute = 0, second = 0, microsecond = 0\<rparr>"]
    is_currently_approved_rule [of fromisoformat_sample now_2024 "''2000-01-01''"
      "\<lparr>year = 2000, month = 1, day = 1, hour = 0, minute = 0, second = 0, microsecond = 0\<rparr>"]
    is_currently_approved_rule [of fromisoformat_sample now_2024 "''not-a-date''"]
  by (simp add: fromisoformat_sample_def now_2024_def naive_less_def dt_fields_def)

text \<open>
  Claim C1. The claim holds for an end date that is absent, empty, malformed or without
  time zone, as the lemma above shows, and the code breaks it on an end date that parses
  as an ISO-8601 date-time with a UTC offset: the call raises \<^verbatim>\<open>TypeError\<close> and returns
  no truth value, where the docstring, the return type \<^verbatim>\<open>bool\<close> and the fail-safe
  \<^verbatim>\<open>except\<close> of the function call for one.
\<close>

theorem is_currently_approved_offset_raises:
  "fromisoformat_sample ''2030-01-01T00:00:00+00:00'' =
     Some (Aware \<lparr>year = 2030, month = 1, day = 1, hour = 0, minute = 0, second = 0, microsecond = 0\<rparr> 0) \<and>
   is_currently_approved fromisoformat_sample now_2024 (JStr ''2030-01-01T00:00:00+00:00'') =
     Inl TypeError"
  by (simp add: fromisoformat_sample_def is_currently_approved_def)

section \<open>Helper lemmas\<close>

lemma py_get_JObj: "py_get (JObj kvs) k = Inr (field kvs k)"
  by (simp add: py_get_def field_def)

lemma bindE_Inr [simp]: "bindE (Inr v) f = f v"
  by (simp add: bindE_def)

lemma bindE_Inl [simp]: "bindE (Inl e) f = Inl e"
  by (simp add: bindE_def)

lemma bindE_eq_Inr: "bindE m f = Inr r \<longleftrightarrow> (\<exists>v. m = Inr v \<and> f v = Inr r)"
  by (cases m) simp_all

lemma strip_Nil: "strip [] = []"
  by (simp add: strip_def rstrip_def)

lemma str_strip_or_empty:
  "str_strip (py_or v (JStr '''')) = Inr r \<Longrightarrow> r = strip (str_or_empty v)"
  by (cases v) (auto simp: py_or_def str_or_empty_def strip_Nil split: if_splits)

lemma str_strip_optional:
  "optional_str v \<Longrightarrow> str_strip (py_or v (JStr '''')) = Inr (strip (str_or_empty v))"
  by (cases v) (auto simp: py_or_def str_or_empty_def optional_str_def strip_Nil)

lemma course_name_optional:
  assumes "optional_str (field kvs ''identifier'')" and "optional_str (field kvs ''courseTitle'')"
  shows "course_name (JObj kvs) = Inr (strip_chars '' -'' (joined_name kvs))"
  using assms by (simp add: course_name_def py_get_JObj str_strip_optional joined_name_def)

lemma course_name_Inr:
  assumes "course_name (JObj kvs) = Inr n"
  shows "n = strip_chars '' -'' (joined_name kvs)"
  using assms
  by (auto simp: course_name_def py_get_JObj joined_name_def bindE_eq_Inr dest!: str_strip_or_empty)

section \<open>Stripping whitespace\<close>

lemma space_len_lstrip: "space_len (lstrip s) = 0"
  by (induction s rule: lstrip.induct) (metis lstrip.simps)

lemma space_len_rev_lstrip_rev: "space_len_rev (lstrip_rev s) = 0"
  by (induction s rule: lstrip_rev.induct) (metis lstrip_rev.simps)

lemma space_point_take: "space_len s \<noteq> 0 \<Longrightarrow> space_point (take (space_len s) s)"
proof (induction s rule: space_len.induct)
  case (1 a b c r)
  show ?case
  proof (cases "ascii_space a")
    case True
    then show ?thesis by (simp add: space_point_def)
  next
    case False
    show ?thesis
    proof (cases "space2 a b")
      case True
      with False show ?thesis by (simp add: space_point_def numeral_2_eq_2)
    next
      case no2: False
      with False 1 show ?thesis
        by (cases "space3 a b c") (simp_all add: space_point_def numeral_3_eq_3)
    qed
  qed
next
  case (2 a b)
  show ?case
  proof (cases "ascii_space a")
    case True
    then show ?thesis by (simp add: space_point_def)
  next
    case False
    with 2 show ?thesis by (cases "space2 a b") (simp_all add: space_point_def numeral_2_eq_2)
  qed
next
  case (3 a)
  then show ?case by (cases "ascii_space a") (simp_all add: space_point_def)
next
  case 4
  then show ?case by simp
qed

lemma space_point_rev_take:
  "space_len_rev s \<noteq> 0 \<Longrightarrow> space_point (rev (take (space_len_rev s) s))"
proof (induction s rule: space_len_rev.induct)
  case (1 c b a r)
  show ?case
  proof (cases "ascii_space c")
    case True
    then show ?thesis by (simp add: space_point_def)
  next
    case False
    show ?thesis
    proof (cases "space2 b c")
      case True
      with False show ?thesis by (simp add: space_point_def numeral_2_eq_2)
    next
      case no2: False
      with False 1 show ?thesis
        by (cases "space3 a b c") (simp_all add: space_point_def numeral_3_eq_3)
    qed
  qed
next
  case (2 c b)
  show ?case
  proof (cases "ascii_space c")
    case True
    then show ?thesis by (simp add: space_point_def)
  next
    case False
    with 2 show ?thesis by (cases "space2 b c") (simp_all add: space_point_def numeral_2_eq_2)
  qed
next
  case (3 c)
  then show ?case by (cases "ascii_space c") (simp_all add: space_point_def)
next
  case 4
  then show ?case by simp
qed

lemma space_point_cases:
  assumes "space_point w"
  obtains a where "w = [a]" and "ascii_space a"
  | a b where "w = [a, b]" and "space2 a b"
  | a b c where "w = [a, b, c]" and "space3 a b c"
  using assms by (auto simp: space_point_def split: list.splits)

lemma space_point_prefix: "space_point w \<Longrightarrow> space_len (w @ r) \<noteq> 0"
proof (erule space_point_cases)
  fix a assume "w = [a]" and "ascii_space a"
  then show ?thesis
    by (cases r rule: space_len.cases) simp_all
next
  fix a b assume "w = [a, b]" and "space2 a b"
  then show ?thesis by (cases r) simp_all
next
  fix a b c assume "w = [a, b, c]" and "space3 a b c"
  then show ?thesis by simp
qed

lemma space_point_suffix: "space_point w \<Longrightarrow> space_len_rev (rev w @ r) \<noteq> 0"
proof (erule space_point_cases)
  fix a assume "w = [a]" and "ascii_space a"
  then show ?thesis
    by (cases r rule: space_len_rev.cases) simp_all
next
  fix a b assume "w = [a, b]" and "space2 a b"
  then show ?thesis by (cases r) simp_all
next
  fix a b c assume "w = [a, b, c]" and "space3 a b c"
  then show ?thesis by simp
qed

lemma all_space_Nil: "all_space []"
  unfolding all_space_def by (intro exI [of _ "[]"]) simp

lemma all_space_append: "all_space p \<Longrightarrow> all_space q \<Longrightarrow> all_space (p @ q)"
proof -
  assume "all_space p" and "all_space q"
  then obtain ws vs where "p = concat ws" "list_all space_point ws"
    "q = concat vs" "list_all space_point vs"
    unfolding all_space_def by blast
  then have "p @ q = concat (ws @ vs) \<and> list_all space_point (ws @ vs)" by simp
  then show ?thesis unfolding all_space_def by blast
qed

lemma all_space_point: "space_point w \<Longrightarrow> all_space w"
  unfolding all_space_def by (intro exI [of _ "[w]"]) simp

lemma lstrip_decompose: "\<exists>p. s = p @ lstrip s \<and> all_space p"
proof (induction s rule: lstrip.induct)
  case (1 s)
  show ?case
  proof (cases "space_len s = 0")
    case True
    then have "lstrip s = s" by (subst lstrip.simps) (simp del: lstrip.simps)
    then have "s = [] @ lstrip s" by (simp del: lstrip.simps)
    with all_space_Nil show ?thesis by blast
  next
    case False
    let ?k = "space_len s"
    from False 1 obtain p where p: "drop ?k s = p @ lstrip (drop ?k s)" and e: "all_space p"
      by blast
    from False have same: "lstrip s = lstrip (drop ?k s)"
      by (subst lstrip.simps) (simp del: lstrip.simps)
    have "s = take ?k s @ drop ?k s" by simp
    with p same have s: "s = (take ?k s @ p) @ lstrip s" by (metis append.assoc)
    from False have "all_space (take ?k s)" by (intro all_space_point space_point_take)
    with e have "all_space (take ?k s @ p)" by (intro all_space_append)
    with s show ?thesis by blast
  qed
qed

lemma lstrip_rev_decompose: "\<exists>p. s = p @ lstrip_rev s \<and> all_space (rev p)"
proof (induction s rule: lstrip_rev.induct)
  case (1 s)
  show ?case
  proof (cases "space_len_rev s = 0")
    case True
    then have "lstrip_rev s = s" by (subst lstrip_rev.simps) (simp del: lstrip_rev.simps)
    then have "s = [] @ lstrip_rev s" by (simp del: lstrip_rev.simps)
    moreover have "all_space (rev [])" by (simp add: all_space_Nil)
    ultimately show ?thesis by blast
  next
    case False
    let ?k = "space_len_rev s"
    from False 1 obtain p where p: "drop ?k s = p @ lstrip_rev (drop ?k s)"
      and e: "all_space (rev p)"
      by blast
    from False have same: "lstrip_rev s = lstrip_rev (drop ?k s)"
      by (subst lstrip_rev.simps) (simp del: lstrip_rev.simps)
    have "s = take ?k s @ drop ?k s" by simp
    with p same have s: "s = (take ?k s @ p) @ lstrip_rev s" by (metis append.assoc)
    from False have "all_space (rev (take ?k s))"
      by (intro all_space_point space_point_rev_take)
    with e have "all_space (rev p @ rev (take ?k s))" by (intro all_space_append)
    then have "all_space (rev (take ?k s @ p))" by simp
    with s show ?thesis by blast
  qed
qed

lemma rstrip_decompose: "\<exists>q. s = rstrip s @ q \<and> all_space q"
proof -
  obtain p where p: "rev s = p @ lstrip_rev (rev s)" and e: "all_space (rev p)"
    using lstrip_rev_decompose by blast
  from p have "rev (rev s) = rev (p @ lstrip_rev (rev s))" by (rule arg_cong)
  then have "s = rstrip s @ rev p" unfolding rstrip_def rev_rev_ident rev_append .
  with e show ?thesis by blast
qed

text \<open>What \<open>strip\<close> removes is a prefix and a suffix made of whitespace code points, and
  what it returns neither begins nor ends with a whitespace code point.\<close>

lemma strip_trims:
  "(\<exists>p q. s = p @ strip s @ q \<and> all_space p \<and> all_space q) \<and>
   \<not> (\<exists>w r. space_point w \<and> strip s = w @ r) \<and>
   \<not> (\<exists>w r. space_point w \<and> strip s = r @ w)"
proof (intro conjI)
  obtain q where q: "lstrip s = strip s @ q" and qe: "all_space q"
    using rstrip_decompose [of "lstrip s"] unfolding strip_def by blast
  obtain p where p: "s = p @ lstrip s" and pe: "all_space p"
    using lstrip_decompose by blast
  from p q have "s = p @ strip s @ q" by metis
  with pe qe show "\<exists>p q. s = p @ strip s @ q \<and> all_space p \<and> all_space q" by blast
  show "\<not> (\<exists>w r. space_point w \<and> strip s = w @ r)"
  proof
    assume "\<exists>w r. space_point w \<and> strip s = w @ r"
    then obtain w r where w: "space_point w" and r: "strip s = w @ r" by blast
    from w have "space_len (w @ (r @ q)) \<noteq> 0" by (rule space_point_prefix)
    with q r have "space_len (lstrip s) \<noteq> 0" by (metis append.assoc)
    then show False by (simp only: space_len_lstrip)
  qed
  show "\<not> (\<exists>w r. space_point w \<and> strip s = r @ w)"
  proof
    assume "\<exists>w r. space_point w \<and> strip s = r @ w"
    then obtain w r where w: "space_point w" and r: "strip s = r @ w" by blast
    from w have "space_len_rev (rev w @ rev r) \<noteq> 0" by (rule space_point_suffix)
    with r have "space_len_rev (rev (strip s)) \<noteq> 0" by (metis rev_append)
    moreover have "space_len_rev (rev (strip s)) = 0"
      unfolding strip_def rstrip_def rev_rev_ident by (rule space_len_rev_lstrip_rev)
    ultimately show False by blast
  qed
qed

section \<open>The name of a course\<close>

lemma rev_dropWhile_takeWhile:
  "xs = rev (dropWhile P (rev xs)) @ rev (takeWhile P (rev xs))"
proof -
  have "rev xs = takeWhile P (rev xs) @ dropWhile P (rev xs)"
    by (rule takeWhile_dropWhile_id [symmetric])
  then have "rev (rev xs) = rev (takeWhile P (rev xs) @ dropWhile P (rev xs))"
    by (rule arg_cong)
  then show ?thesis
    unfolding rev_append rev_rev_ident .
qed

lemma strip_chars_decompose:
  "\<exists>p q. s = p @ strip_chars cs s @ q \<and> set p \<subseteq> set cs \<and> set q \<subseteq> set cs"
proof -
  let ?P = "\<lambda>c. c \<in> set cs"
  let ?m = "dropWhile ?P s"
  have 1: "s = takeWhile ?P s @ ?m" by simp
  have 2: "?m = strip_chars cs s @ rev (takeWhile ?P (rev ?m))"
    unfolding strip_chars_def by (rule rev_dropWhile_takeWhile)
  have 3: "set (takeWhile ?P s) \<subseteq> set cs"
    by (auto dest: set_takeWhileD)
  have 4: "set (rev (takeWhile ?P (rev ?m))) \<subseteq> set cs"
    by (auto dest: set_takeWhileD)
  from 1 2 have "s = takeWhile ?P s @ strip_chars cs s @ rev (takeWhile ?P (rev ?m))"
    by metis
  with 3 4 show ?thesis by blast
qed

lemma strip_chars_last:
  assumes "strip_chars cs s \<noteq> []"
  shows "last (strip_chars cs s) \<notin> set cs"
proof -
  let ?P = "\<lambda>c. c \<in> set cs"
  let ?d = "dropWhile ?P (rev (dropWhile ?P s))"
  from assms have ne: "?d \<noteq> []" by (simp add: strip_chars_def)
  then have "\<not> ?P (hd ?d)" by (rule hd_dropWhile)
  moreover have "last (strip_chars cs s) = hd ?d"
    using ne by (simp add: strip_chars_def last_rev)
  ultimately show ?thesis by simp
qed

lemma strip_chars_hd:
  assumes "strip_chars cs s \<noteq> []"
  shows "hd (strip_chars cs s) \<notin> set cs"
proof -
  let ?P = "\<lambda>c. c \<in> set cs"
  let ?m = "dropWhile ?P s"
  have m: "?m = strip_chars cs s @ rev (takeWhile ?P (rev ?m))"
    unfolding strip_chars_def by (rule rev_dropWhile_takeWhile)
  with assms have ne: "?m \<noteq> []" by (metis Nil_is_append_conv)
  then have "\<not> ?P (hd ?m)" by (rule hd_dropWhile)
  moreover have "hd ?m = hd (strip_chars cs s)"
    using m assms by (metis hd_append2)
  ultimately show ?thesis by simp
qed

lemma strip_chars_not_dash: "strip_chars '' -'' s \<noteq> '' - ''"
proof
  assume eq: "strip_chars '' -'' s = '' - ''"
  then have "strip_chars '' -'' s \<noteq> []" by simp
  then have "hd (strip_chars '' -'' s) \<notin> set '' -''" by (rule strip_chars_hd)
  with eq show False by simp
qed


lemma course_out_course:
  assumes "course_out fi now (JObj kvs) = Inr out"
  shows "\<exists>fs. out = JObj fs \<and>
           map_of fs ''course'' = Some (JStr (strip_chars '' -'' (joined_name kvs)))"
proof -
  from assms obtain n where n: "course_name (JObj kvs) = Inr n"
    by (auto simp: course_out_def bindE_eq_Inr)
  then have "n = strip_chars '' -'' (joined_name kvs)" by (rule course_name_Inr)
  with assms n show ?thesis
    by (auto simp: course_out_def bindE_eq_Inr)
qed

text \<open>
  Claim C3. For an entry whose identifier and title are each absent, \<^verbatim>\<open>None\<close> or a string,
  the name is computed without an exception: both parts are stripped of whitespace (an
  absent part counts as the empty string), joined as \<open>identifier - title\<close>, and spaces and
  hyphens are stripped from both ends of the result. It is the \<open>course\<close> field of the
  entry's output. What is stripped is a prefix and a suffix made of spaces and hyphens
  only, what remains neither begins nor ends with a space or a hyphen, and it is never the
  bare \<open> - \<close>. Stripping a part of whitespace removes from it a prefix and a suffix made
  of whitespace code points, and leaves a string that neither begins nor ends with one.
\<close>

theorem course_name_format:
  "(optional_str (field kvs ''identifier'') \<and> optional_str (field kvs ''courseTitle'') \<longrightarrow>
      course_name (JObj kvs) = Inr (strip_chars '' -'' (joined_name kvs))) \<and>
   (course_out fi now (JObj kvs) = Inr out \<longrightarrow>
      (\<exists>fs. out = JObj fs \<and>
         map_of fs ''course'' = Some (JStr (strip_chars '' -'' (joined_name kvs))))) \<and>
   (\<exists>p q. joined_name kvs = p @ strip_chars '' -'' (joined_name kvs) @ q \<and>
      (\<forall>c \<in> set p \<union> set q. space_or_hyphen c)) \<and>
   (strip_chars '' -'' (joined_name kvs) \<noteq> [] \<longrightarrow>
      \<not> space_or_hyphen (hd (strip_chars '' -'' (joined_name kvs))) \<and>
      \<not> space_or_hyphen (last (strip_chars '' -'' (joined_name kvs)))) \<and>
   strip_chars '' -'' (joined_name kvs) \<noteq> '' - '' \<and>
   joined_name kvs =
     strip (str_or_empty (field kvs ''identifier'')) @ '' - '' @
     strip (str_or_empty (field kvs ''courseTitle'')) \<and>
   (\<exists>p q. s = p @ strip s @ q \<and> all_space p \<and> all_space q) \<and>
   \<not> (\<exists>w r. space_point w \<and> strip s = w @ r) \<and>
   \<not> (\<exists>w r. space_point w \<and> strip s = r @ w)"
proof (intro conjI impI)
  assume "optional_str (field kvs ''identifier'') \<and> optional_str (field kvs ''courseTitle'')"
  then show "course_name (JObj kvs) = Inr (strip_chars '' -'' (joined_name kvs))"
    by (simp add: course_name_optional)
next
  assume "course_out fi now (JObj kvs) = Inr out"
  then show "\<exists>fs. out = JObj fs \<and>
      map_of fs ''course'' = Some (JStr (strip_chars '' -'' (joined_name kvs)))"
    by (rule course_out_course)
next
  obtain p q where "joined_name kvs = p @ strip_chars '' -'' (joined_name kvs) @ q"
      and "set p \<subseteq> set '' -''" and "set q \<subseteq> set '' -''"
    using strip_chars_decompose [of "joined_name kvs" "'' -''"] by blast
  then show "\<exists>p q. joined_name kvs = p @ strip_chars '' -'' (joined_name kvs) @ q \<and>
      (\<forall>c \<in> set p \<union> set q. space_or_hyphen c)"
    by (intro exI [of _ p] exI [of _ q]) (auto simp: space_or_hyphen_def)
next
  assume ne: "strip_chars '' -'' (joined_name kvs) \<noteq> []"
  from strip_chars_hd [OF ne]
  show "\<not> space_or_hyphen (hd (strip_chars '' -'' (joined_name kvs)))"
    by (simp add: space_or_hyphen_def)
  from strip_chars_last [OF ne]
  show "\<not> space_or_hyphen (last (strip_chars '' -'' (joined_name kvs)))"
    by (simp add: space_or_hyphen_def)
next
  show "strip_chars '' -'' (joined_name kvs) \<noteq> '' - ''"
    by (rule strip_chars_not_dash)
next
  show "joined_name kvs =
     strip (str_or_empty (field kvs ''identifier'')) @ '' - '' @
     strip (str_or_empty (field kvs ''courseTitle''))"
    by (rule joined_name_def)
next
  show "\<exists>p q. s = p @ strip s @ q \<and> all_space p \<and> all_space q"
    and "\<not> (\<exists>w r. space_point w \<and> strip s = w @ r)"
    and "\<not> (\<exists>w r. space_point w \<and> strip s = r @ w)"
    using strip_trims [of s] by blast+
qed

lemmas string_eval =
  strip_def rstrip_def ascii_space_def space2_def space3_def strip_chars_def

lemma engl_1a_course_out:
  "course_out fromisoformat_sample now_2024 (JObj engl_1a) = Inr (JObj engl_1a_out)"
  by (simp add: course_out_def course_name_def transfer_areas_def py_get_def py_or_def
      is_currently_approved_def engl_1a_def engl_1a_out_def string_eval)

lemma strip_examples:
  "strip (''  MATH 100 '') = ''MATH 100''"
  "strip (CHR 0x09 # ''Calculus I'' @ [CHR 0x0D, CHR 0x0A]) = ''Calculus I''"
  "strip ([CHR 0xC2, CHR 0xA0] @ ''PHYS 4A'' @ [CHR 0xE2, CHR 0x80, CHR 0x83]) = ''PHYS 4A''"
  by (simp_all add: string_eval)

theorem course_name_format_witness:
  "course_name (JObj math_100) = Inr ''MATH 100'' \<and>
   course_name (JObj calculus) = Inr ''Calculus'' \<and>
   course_name (JObj []) = Inr '''' \<and>
   course_name (JObj engl_1a) = Inr ''ENGL 1A - Composition'' \<and>
   course_out fromisoformat_sample now_2024 (JObj engl_1a) = Inr (JObj engl_1a_out) \<and>
   course_name (JObj spaced_entry) = Inr ''MATH 100 - Calculus I'' \<and>
   course_name (JObj nbsp_entry) = Inr ''PHYS 4A'' \<and>
   strip (''  MATH 100 '') = ''MATH 100'' \<and>
   \<not> (\<exists>w r. space_point w \<and> strip (''  MATH 100 '') = w @ r)"
proof -
  have plain: "course_name (JObj math_100) = Inr ''MATH 100'' \<and>
      course_name (JObj calculus) = Inr ''Calculus'' \<and>
      course_name (JObj []) = Inr '''' \<and>
      course_name (JObj engl_1a) = Inr ''ENGL 1A - Composition'' \<and>
      course_out fromisoformat_sample now_2024 (JObj engl_1a) = Inr (JObj engl_1a_out)"
    using course_name_format [of math_100] course_name_format [of calculus]
      course_name_format [of "[]"]
      course_name_format [of engl_1a fromisoformat_sample now_2024 "JObj engl_1a_out"]
      engl_1a_course_out
    by (simp add: math_100_def calculus_def engl_1a_def field_def optional_str_def
        joined_name_def str_or_empty_def string_eval)
  note spaced = course_name_format [of spaced_entry fromisoformat_sample now_2024 JNull
      "''  MATH 100 ''"]
  have "optional_str (field spaced_entry ''identifier'') \<and>
      optional_str (field spaced_entry ''courseTitle'')"
    by (simp add: spaced_entry_def field_def optional_str_def)
  with spaced have "course_name (JObj spaced_entry) =
      Inr (strip_chars '' -'' (strip (str_or_empty (field spaced_entry ''identifier'')) @ '' - '' @
        strip (str_or_empty (field spaced_entry ''courseTitle''))))"
    by simp
  moreover have "str_or_empty (field spaced_entry ''identifier'') = ''  MATH 100 ''"
    and "str_or_empty (field spaced_entry ''courseTitle'') =
      CHR 0x09 # ''Calculus I'' @ [CHR 0x0D, CHR 0x0A]"
    by (simp_all add: spaced_entry_def field_def str_or_empty_def)
  ultimately have 1: "course_name (JObj spaced_entry) = Inr ''MATH 100 - Calculus I''"
    by (simp add: string_eval)
  note nbsp = course_name_format [of nbsp_entry fromisoformat_sample now_2024 JNull
      "''  MATH 100 ''"]
  have "optional_str (field nbsp_entry ''identifier'') \<and>
      optional_str (field nbsp_entry ''courseTitle'')"
    by (simp add: nbsp_entry_def field_def optional_str_def)
  with nbsp have "course_name (JObj nbsp_entry) =
      Inr (strip_chars '' -'' (strip (str_or_empty (field nbsp_entry ''identifier'')) @ '' - '' @
        strip (str_or_empty (field nbsp_entry ''courseTitle''))))"
    by simp
  moreover have "str_or_empty (field nbsp_entry ''identifier'') =
      [CHR 0xC2, CHR 0xA0] @ ''PHYS 4A'' @ [CHR 0xE2, CHR 0x80, CHR 0x83]"
    and "str_or_empty (field nbsp_entry ''courseTitle'') = []"
    by (simp_all add: nbsp_entry_def field_def str_or_empty_def)
  moreover have "strip [] = []" by (rule strip_Nil)
  ultimately have 2: "course_name (JObj nbsp_entry) = Inr ''PHYS 4A''"
    by (simp add: string_eval)
  from spaced have 3: "\<not> (\<exists>w r. space_point w \<and> strip (''  MATH 100 '') = w @ r)"
    by blast
  from plain 1 2 3 strip_examples(1) show ?thesis by blast
qed

section \<open>The transfer areas of a course\<close>

lemma code_of_JObj: "code_of (JObj kvs) = field kvs ''code''"
  by (simp add: code_of_def)

lemma py_or_JArr: "py_or (JArr as) (JArr []) = JArr as"
  by (cases as) (simp_all add: py_or_def)

lemma transfer_area_codes_objs:
  "list_all is_obj as \<Longrightarrow> transfer_area_codes as = Inr (filter truthy (map code_of as))"
proof (induction as)
  case Nil
  show ?case by simp
next
  case (Cons a as)
  from Cons.prems obtain kvs where a: "a = JObj kvs"
    by (cases a) (simp_all add: is_obj_def)
  from Cons have rest: "transfer_area_codes as = Inr (filter truthy (map code_of as))"
    by simp
  show ?case
    by (simp add: a rest py_get_JObj code_of_JObj)
qed

lemma transfer_area_codes_truthy:
  "transfer_area_codes as = Inr codes \<Longrightarrow> x \<in> set codes \<Longrightarrow> truthy x"
proof (induction as arbitrary: codes)
  case Nil
  then show ?case by simp
next
  case (Cons a as)
  from Cons.prems(1) obtain cond where cond: "py_get a ''code'' = Inr cond"
    by (auto simp: bindE_eq_Inr)
  show ?case
  proof (cases "truthy cond")
    case True
    with Cons.prems(1) cond obtain rest where
      rest: "transfer_area_codes as = Inr rest" and codes: "codes = cond # rest"
      by (auto simp: bindE_eq_Inr)
    from Cons.prems(2) codes have "x = cond \<or> x \<in> set rest" by simp
    then show ?thesis
      using True Cons.IH [OF rest] by blast
  next
    case False
    with Cons.prems(1) cond have "transfer_area_codes as = Inr codes" by simp
    then show ?thesis using Cons.prems(2) by (rule Cons.IH)
  qed
qed

lemma transfer_areas_list:
  assumes "field kvs ''transferAreas'' = JArr as" and "list_all is_obj as"
  shows "transfer_areas (JObj kvs) = Inr (filter truthy (map code_of as))"
  using assms
  by (simp add: transfer_areas_def py_get_JObj py_or_JArr transfer_area_codes_objs)

lemma transfer_areas_falsy:
  assumes "\<not> truthy (field kvs ''transferAreas'')"
  shows "transfer_areas (JObj kvs) = Inr []"
  using assms by (simp add: transfer_areas_def py_get_JObj py_or_def)

lemma transfer_areas_truthy:
  assumes "transfer_areas c = Inr codes" and "x \<in> set codes"
  shows "truthy x"
proof -
  from assms(1) obtain as where "transfer_area_codes as = Inr codes"
    by (auto simp: transfer_areas_def bindE_eq_Inr)
  then show ?thesis using assms(2) by (rule transfer_area_codes_truthy)
qed

lemma course_out_transferAreas:
  assumes "course_out fi now c = Inr out"
  shows "\<exists>fs codes. out = JObj fs \<and> transfer_areas c = Inr codes \<and>
           map_of fs ''transferAreas'' = Some (JArr codes)"
  using assms by (auto simp: course_out_def bindE_eq_Inr)

text \<open>
  Claim C5. When the transfer-area list of an entry is a list of objects, the transfer
  areas are computed without an exception and are the \<open>code\<close> fields of the list in order,
  those that are falsy or absent left out; an entry without the list (or with
  \<^verbatim>\<open>None\<close> for it) has none. Whenever the areas are computed, none of them is falsy,
  \<^verbatim>\<open>None\<close> in particular, and they are the \<open>transferAreas\<close> field of the entry's output.
\<close>

theorem transferAreas_codes:
  "(field kvs ''transferAreas'' = JArr as \<and> list_all is_obj as \<longrightarrow>
      transfer_areas (JObj kvs) = Inr (filter truthy (map code_of as))) \<and>
   (\<not> truthy (field kvs ''transferAreas'') \<longrightarrow> transfer_areas (JObj kvs) = Inr []) \<and>
   (transfer_areas c = Inr codes \<longrightarrow> JNull \<notin> set codes \<and> (\<forall>x \<in> set codes. truthy x)) \<and>
   (course_out fi now c = Inr out \<longrightarrow>
      (\<exists>fs cs. out = JObj fs \<and> transfer_areas c = Inr cs \<and>
         map_of fs ''transferAreas'' = Some (JArr cs)))"
proof (intro conjI impI)
  assume "field kvs ''transferAreas'' = JArr as \<and> list_all is_obj as"
  then show "transfer_areas (JObj kvs) = Inr (filter truthy (map code_of as))"
    by (simp add: transfer_areas_list)
next
  assume "\<not> truthy (field kvs ''transferAreas'')"
  then show "transfer_areas (JObj kvs) = Inr []" by (rule transfer_areas_falsy)
next
  assume r: "transfer_areas c = Inr codes"
  then have all: "\<And>x. x \<in> set codes \<Longrightarrow> truthy x" by (rule transfer_areas_truthy)
  show "\<forall>x \<in> set codes. truthy x" using all by blast
  show "JNull \<notin> set codes" using all [of JNull] by auto
next
  assume "course_out fi now c = Inr out"
  then show "\<exists>fs cs. out = JObj fs \<and> transfer_areas c = Inr cs \<and>
      map_of fs ''transferAreas'' = Some (JArr cs)"
    by (rule course_out_transferAreas)
qed

theorem transferAreas_codes_witness:
  "transfer_areas (JObj [(''transferAreas'', JArr three_areas)]) = Inr [JStr ''A1'', JStr ''B2''] \<and>
   transfer_areas (JObj []) = Inr [] \<and>
   JNull \<notin> set [JStr ''A1'', JStr ''B2''] \<and>
   (\<exists>cs. transfer_areas (JObj engl_1a) = Inr cs \<and>
      map_of engl_1a_out ''transferAreas'' = Some (JArr cs))"
proof -
  let ?kvs = "[(''transferAreas'', JArr three_areas)]"
  note rule = transferAreas_codes [of ?kvs three_areas "JObj ?kvs" "[JStr ''A1'', JStr ''B2'']"
      fromisoformat_sample now_2024 "JObj engl_1a_out"]
  note rule' = transferAreas_codes [of "[]" "[]" "JObj engl_1a" "[]"
      fromisoformat_sample now_2024 "JObj engl_1a_out"]
  have list: "field ?kvs ''transferAreas'' = JArr three_areas \<and> list_all is_obj three_areas"
    by (simp add: field_def three_areas_def is_obj_def)
  have codes: "filter truthy (map code_of three_areas) = [JStr ''A1'', JStr ''B2'']"
    by (simp add: three_areas_def code_of_JObj field_def)
  from rule list codes
  have 1: "transfer_areas (JObj ?kvs) = Inr [JStr ''A1'', JStr ''B2'']" by simp
  with rule have 2: "JNull \<notin> set [JStr ''A1'', JStr ''B2'']" by blast
  have "\<not> truthy (field [] ''transferAreas'')" by (simp add: field_def)
  with rule' have 3: "transfer_areas (JObj []) = Inr []" by blast
  from rule' engl_1a_course_out
  have 4: "\<exists>cs. transfer_areas (JObj engl_1a) = Inr cs \<and>
      map_of engl_1a_out ''transferAreas'' = Some (JArr cs)" by blast
  from 1 2 3 4 show ?thesis by blast
qed

section \<open>Documents without a course list or without metadata\<close>

lemma academic_year_code:
  assumes "optional_obj ay"
  shows "py_get (py_or ay (JObj [])) ''code'' = Inr (code_of ay)"
proof (cases "truthy ay")
  case True
  with assms obtain kvs where "ay = JObj kvs"
    by (cases ay) (simp_all add: optional_obj_def is_obj_def)
  with True show ?thesis by (simp add: py_or_def py_get_JObj code_of_JObj)
next
  case False
  then have "code_of ay = JNull"
    by (cases ay) (simp_all add: code_of_def field_def)
  with False show ?thesis by (simp add: py_or_def py_get_JObj field_def)
qed

lemma get_csu_ge_courses_result:
  assumes "py_iter (raw_course_list kvs) = Inr cs"
    and "courses_loop fi clock 0 cs = Inr outs"
    and "optional_obj (field kvs ''academicYear'')"
  shows "get_csu_ge_courses fi clock (JObj kvs) = Inr (ge_output kvs outs)"
  using assms
  by (simp add: get_csu_ge_courses_def raw_course_list_def py_get_JObj academic_year_code
      ge_output_def)

lemma raw_course_list_missing:
  assumes "map_of kvs ''courseInformationList'' = None \<or>
           map_of kvs ''courseInformationList'' = Some JNull"
  shows "raw_course_list kvs = JArr []"
  using assms by (auto simp: raw_course_list_def py_or_def)

text \<open>
  Claim C7. A document (an object) without \<open>courseInformationList\<close>, or with \<^verbatim>\<open>None\<close> for it,
  is transformed without an exception into an output whose \<open>courses\<close> is the empty list;
  and whenever the course list is processed without an exception, the output exists, each
  of \<open>institutionName\<close> and \<open>listType\<close> that the document lacks is \<^verbatim>\<open>None\<close> in it, and so is
  \<open>academicYear\<close> when the document has no academic year or the academic year has no
  \<open>code\<close>. The academic year, when present, is an object or \<^verbatim>\<open>None\<close>.
\<close>

theorem missing_list_or_metadata:
  "((map_of kvs ''courseInformationList'' = None \<or>
     map_of kvs ''courseInformationList'' = Some JNull) \<and>
    optional_obj (field kvs ''academicYear'') \<longrightarrow>
      get_csu_ge_courses fi clock (JObj kvs) = Inr (ge_output kvs [])) \<and>
   (py_iter (raw_course_list kvs) = Inr cs \<and> courses_loop fi clock 0 cs = Inr outs \<and>
    optional_obj (field kvs ''academicYear'') \<longrightarrow>
      get_csu_ge_courses fi clock (JObj kvs) = Inr (ge_output kvs outs)) \<and>
   (\<exists>name year type.
      ge_output kvs outs =
        JObj [(''institutionName'', name), (''academicYear'', year), (''listType'', type),
              (''courses'', JArr outs)] \<and>
      (map_of kvs ''institutionName'' = None \<longrightarrow> name = JNull) \<and>
      (map_of kvs ''listType'' = None \<longrightarrow> type = JNull) \<and>
      (map_of kvs ''academicYear'' = None \<longrightarrow> year = JNull) \<and>
      (map_of kvs ''academicYear'' = Some JNull \<longrightarrow> year = JNull) \<and>
      (\<forall>ay. map_of kvs ''academicYear'' = Some (JObj ay) \<and> map_of ay ''code'' = None \<longrightarrow>
         year = JNull))"
proof (intro conjI impI)
  assume h: "(map_of kvs ''courseInformationList'' = None \<or>
     map_of kvs ''courseInformationList'' = Some JNull) \<and>
    optional_obj (field kvs ''academicYear'')"
  then have "raw_course_list kvs = JArr []" by (simp add: raw_course_list_missing)
  then have "py_iter (raw_course_list kvs) = Inr []" by simp
  moreover have "courses_loop fi clock 0 [] = Inr []" by simp
  ultimately show "get_csu_ge_courses fi clock (JObj kvs) = Inr (ge_output kvs [])"
    using h by (simp add: get_csu_ge_courses_result)
next
  assume "py_iter (raw_course_list kvs) = Inr cs \<and> courses_loop fi clock 0 cs = Inr outs \<and>
    optional_obj (field kvs ''academicYear'')"
  then show "get_csu_ge_courses fi clock (JObj kvs) = Inr (ge_output kvs outs)"
    by (simp add: get_csu_ge_courses_result)
next
  show "\<exists>name year type.
      ge_output kvs outs =
        JObj [(''institutionName'', name), (''academicYear'', year), (''listType'', type),
              (''courses'', JArr outs)] \<and>
      (map_of kvs ''institutionName'' = None \<longrightarrow> name = JNull) \<and>
      (map_of kvs ''listType'' = None \<longrightarrow> type = JNull) \<and>
      (map_of kvs ''academicYear'' = None \<longrightarrow> year = JNull) \<and>
      (map_of kvs ''academicYear'' = Some JNull \<longrightarrow> year = JNull) \<and>
      (\<forall>ay. map_of kvs ''academicYear'' = Some (JObj ay) \<and> map_of ay ''code'' = None \<longrightarrow>
         year = JNull)"
    by (intro exI [of _ "field kvs ''institutionName''"]
        exI [of _ "code_of (field kvs ''academicYear'')"] exI [of _ "field kvs ''listType''"])
      (simp add: ge_output_def field_def code_of_def)
qed

theorem missing_list_or_metadata_witness:
  "get_csu_ge_courses fromisoformat_sample clock_2024 (JObj []) =
     Inr (JObj [(''institutionName'', JNull), (''academicYear'', JNull), (''listType'', JNull),
                (''courses'', JArr [])]) \<and>
   get_csu_ge_courses fromisoformat_sample clock_2024 (JObj one_course_doc) =
     Inr (JObj [(''institutionName'', JNull), (''academicYear'', JNull), (''listType'', JNull),
                (''courses'', JArr [JObj engl_1a_out])])"
proof -
  note empty = missing_list_or_metadata [of "[]" fromisoformat_sample clock_2024 "[]" "[]"]
  note one = missing_list_or_metadata [of one_course_doc fromisoformat_sample clock_2024
      "[JObj engl_1a]" "[JObj engl_1a_out]"]
  have "map_of [] ''courseInformationList'' = (None :: json option)" by simp
  moreover have "optional_obj (field [] ''academicYear'')"
    by (simp add: optional_obj_def field_def)
  ultimately have "get_csu_ge_courses fromisoformat_sample clock_2024 (JObj []) =
      Inr (ge_output [] [])"
    using empty by blast
  then have 1: "get_csu_ge_courses fromisoformat_sample clock_2024 (JObj []) =
     Inr (JObj [(''institutionName'', JNull), (''academicYear'', JNull), (''listType'', JNull),
                (''courses'', JArr [])])"
    by (simp add: ge_output_def field_def code_of_def)
  have "py_iter (raw_course_list one_course_doc) = Inr [JObj engl_1a]"
    by (simp add: raw_course_list_def one_course_doc_def py_or_def)
  moreover have "courses_loop fromisoformat_sample clock_2024 0 [JObj engl_1a] =
      Inr [JObj engl_1a_out]"
    by (simp add: clock_2024_def engl_1a_course_out)
  moreover have "optional_obj (field one_course_doc ''academicYear'')"
    by (simp add: optional_obj_def field_def one_course_doc_def)
  ultimately have "get_csu_ge_courses fromisoformat_sample clock_2024 (JObj one_course_doc) =
      Inr (ge_output one_course_doc [JObj engl_1a_out])"
    using one by blast
  then have 2: "get_csu_ge_courses fromisoformat_sample clock_2024 (JObj one_course_doc) =
     Inr (JObj [(''institutionName'', JNull), (''academicYear'', JNull), (''listType'', JNull),
                (''courses'', JArr [JObj engl_1a_out])])"
    by (simp add: ge_output_def field_def code_of_def one_course_doc_def)
  from 1 2 show ?thesis by (rule conjI)
qed

section \<open>The clock and the output\<close>

lemma is_currently_approved_same:
  assumes "\<And>s d. v = JStr s \<Longrightarrow> s \<noteq> [] \<Longrightarrow> fi s = Some (Naive d) \<Longrightarrow>
             naive_less n1 d = naive_less n2 d"
  shows "is_currently_approved fi n1 v = is_currently_approved fi n2 v"
proof (cases v)
  case (JStr s)
  show ?thesis
  proof (cases "s = []")
    case True
    with JStr show ?thesis by (simp add: is_currently_approved_def)
  next
    case False
    show ?thesis
    proof (cases "fi s")
      case None
      with JStr False show ?thesis by (simp add: is_currently_approved_def)
    next
      case (Some dt)
      show ?thesis
      proof (cases dt)
        case (Naive d)
        with assms JStr False Some have "naive_less n1 d = naive_less n2 d" by simp
        with JStr False Some Naive show ?thesis by (simp add: is_currently_approved_def)
      next
        case (Aware d off)
        with JStr False Some show ?thesis by (simp add: is_currently_approved_def)
      qed
    qed
  qed
qed (simp_all add: is_currently_approved_def)

lemma course_out_same:
  assumes "\<And>d. parsed_end fi c = Some d \<Longrightarrow> naive_less n1 d = naive_less n2 d"
  shows "course_out fi n1 c = course_out fi n2 c"
proof (cases c)
  case (JObj kvs)
  have "is_currently_approved fi n1 (field kvs ''endDate'') =
        is_currently_approved fi n2 (field kvs ''endDate'')"
  proof (rule is_currently_approved_same)
    fix s d
    assume "field kvs ''endDate'' = JStr s" and "s \<noteq> []" and "fi s = Some (Naive d)"
    then have "parsed_end fi c = Some d" by (simp add: parsed_end_def JObj)
    then show "naive_less n1 d = naive_less n2 d" by (rule assms)
  qed
  then show ?thesis by (simp add: course_out_def JObj py_get_JObj)
qed (simp_all add: course_out_def course_name_def py_get_def)

lemma courses_loop_same:
  "same_side fi clock1 clock2 i cs \<Longrightarrow> courses_loop fi clock1 i cs = courses_loop fi clock2 i cs"
proof (induction cs arbitrary: i)
  case Nil
  show ?case by simp
next
  case (Cons c cs)
  have head: "course_out fi (clock1 i) c = course_out fi (clock2 i) c"
  proof (rule course_out_same)
    fix d
    assume "parsed_end fi c = Some d"
    with Cons.prems show "naive_less (clock1 i) d = naive_less (clock2 i) d" by simp
  qed
  from Cons.prems have "same_side fi clock1 clock2 (Suc i) cs" by simp
  then have "courses_loop fi clock1 (Suc i) cs = courses_loop fi clock2 (Suc i) cs"
    by (rule Cons.IH)
  with head show ?case by simp
qed

lemma get_csu_ge_courses_same:
  assumes "same_side fi clock1 clock2 0 (course_entries data)"
  shows "get_csu_ge_courses fi clock1 data = get_csu_ge_courses fi clock2 data"
proof (cases data)
  case (JObj kvs)
  show ?thesis
  proof (cases "py_iter (raw_course_list kvs)")
    case (Inl e)
    then show ?thesis
      by (simp add: get_csu_ge_courses_def JObj raw_course_list_def)
  next
    case (Inr cs)
    with assms JObj have "courses_loop fi clock1 0 cs = courses_loop fi clock2 0 cs"
      by (simp add: course_entries_def courses_loop_same)
    with Inr show ?thesis
      by (simp add: get_csu_ge_courses_def JObj raw_course_list_def)
  qed
qed (simp_all add: get_csu_ge_courses_def)

lemma get_transfer_courses_same:
  assumes "same_side fi clock1 clock2 0 (course_entries data)"
  shows "get_transfer_courses fi clock1 lt data = get_transfer_courses fi clock2 lt data"
proof (cases data)
  case (JObj kvs)
  show ?thesis
  proof (cases "py_iter (raw_course_list kvs)")
    case (Inl e)
    then show ?thesis
      by (simp add: get_transfer_courses_def JObj raw_course_list_def)
  next
    case (Inr cs)
    with assms JObj have "courses_loop fi clock1 0 cs = courses_loop fi clock2 0 cs"
      by (simp add: course_entries_def courses_loop_same)
    with Inr show ?thesis
      by (simp add: get_transfer_courses_def JObj raw_course_list_def)
  qed
qed (simp_all add: get_transfer_courses_def)

lemma same_side_no_end:
  "\<forall>c \<in> set cs. parsed_end fi c = None \<Longrightarrow> same_side fi clock1 clock2 i cs"
  by (induction cs arbitrary: i) simp_all

text \<open>
  Claim C4, as the code has it. The approval rule has no parameter for the time: it reads
  the system clock with \<^verbatim>\<open>datetime.utcnow()\<close>. For a fixed document, two runs of either
  transformer give the same result (output or exception) whenever their clock readings
  lie on the same side of every end date that parses to a datetime without time zone; in
  particular when no entry has such an end date, whatever the clocks read.
\<close>

theorem clock_and_output:
  "(same_side fi clock1 clock2 0 (course_entries data) \<longrightarrow>
      get_csu_ge_courses fi clock1 data = get_csu_ge_courses fi clock2 data \<and>
      get_transfer_courses fi clock1 lt data = get_transfer_courses fi clock2 lt data) \<and>
   ((\<forall>c \<in> set (course_entries data). parsed_end fi c = None) \<longrightarrow>
      get_csu_ge_courses fi clock1 data = get_csu_ge_courses fi clock2 data \<and>
      get_transfer_courses fi clock1 lt data = get_transfer_courses fi clock2 lt data)"
proof (intro conjI impI)
  assume "same_side fi clock1 clock2 0 (course_entries data)"
  then show "get_csu_ge_courses fi clock1 data = get_csu_ge_courses fi clock2 data"
    and "get_transfer_courses fi clock1 lt data = get_transfer_courses fi clock2 lt data"
    by (rule get_csu_ge_courses_same, rule get_transfer_courses_same)
next
  assume "\<forall>c \<in> set (course_entries data). parsed_end fi c = None"
  then have "same_side fi clock1 clock2 0 (course_entries data)"
    by (rule same_side_no_end)
  then show "get_csu_ge_courses fi clock1 data = get_csu_ge_courses fi clock2 data"
    and "get_transfer_courses fi clock1 lt data = get_transfer_courses fi clock2 lt data"
    by (rule get_csu_ge_courses_same, rule get_transfer_courses_same)
qed

lemmas ge_eval =
  get_csu_ge_courses_def course_out_def course_name_def transfer_areas_def py_get_def
  py_or_def is_currently_approved_def fromisoformat_sample_def naive_less_def dt_fields_def
  string_eval

theorem clock_and_output_witness:
  "get_csu_ge_courses fromisoformat_sample clock_2024 (JObj expired_doc) =
     get_csu_ge_courses fromisoformat_sample clock_2026 (JObj expired_doc) \<and>
   get_csu_ge_courses fromisoformat_sample clock_2024 (JObj one_course_doc) =
     get_csu_ge_courses fromisoformat_sample clock_2026 (JObj one_course_doc)"
proof -
  have "course_entries (JObj expired_doc) =
      [JObj [(''identifier'', JStr ''HIST 17A''), (''endDate'', JStr ''2000-01-01'')]]"
    by (simp add: course_entries_def raw_course_list_def expired_doc_def py_or_def)
  then have "same_side fromisoformat_sample clock_2024 clock_2026 0
      (course_entries (JObj expired_doc))"
    by (simp add: parsed_end_def field_def fromisoformat_sample_def
        clock_2024_def clock_2026_def now_2024_def now_2026_def naive_less_def dt_fields_def)
  with clock_and_output [of fromisoformat_sample clock_2024 clock_2026 "JObj expired_doc"]
  have 1: "get_csu_ge_courses fromisoformat_sample clock_2024 (JObj expired_doc) =
     get_csu_ge_courses fromisoformat_sample clock_2026 (JObj expired_doc)" by blast
  have "course_entries (JObj one_course_doc) = [JObj engl_1a]"
    by (simp add: course_entries_def raw_course_list_def one_course_doc_def py_or_def)
  then have "\<forall>c \<in> set (course_entries (JObj one_course_doc)).
      parsed_end fromisoformat_sample c = None"
    by (simp add: parsed_end_def field_def engl_1a_def)
  with clock_and_output [of fromisoformat_sample clock_2024 clock_2026 "JObj one_course_doc"]
  have 2: "get_csu_ge_courses fromisoformat_sample clock_2024 (JObj one_course_doc) =
     get_csu_ge_courses fromisoformat_sample clock_2026 (JObj one_course_doc)" by blast
  from 1 2 show ?thesis by (rule conjI)
qed

text \<open>Claim C4 as stated fails: two runs on the same document, one before and one after
  the end date of its course, give different outputs.\<close>

theorem clock_changes_output_counterexample:
  "get_csu_ge_courses fromisoformat_sample clock_2024 (JObj expiring_doc) =
     Inr (expiring_out True) \<and>
   get_csu_ge_courses fromisoformat_sample clock_2026 (JObj expiring_doc) =
     Inr (expiring_out False) \<and>
   expiring_out True \<noteq> expiring_out False"
proof -
  have 1: "get_csu_ge_courses fromisoformat_sample clock_2024 (JObj expiring_doc) =
     Inr (expiring_out True)"
    by (simp add: ge_eval expiring_doc_def expiring_out_def clock_2024_def now_2024_def)
  have 2: "get_csu_ge_courses fromisoformat_sample clock_2026 (JObj expiring_doc) =
     Inr (expiring_out False)"
    by (simp add: ge_eval expiring_doc_def expiring_out_def clock_2026_def now_2026_def)
  have 3: "expiring_out True \<noteq> expiring_out False"
    by (simp add: expiring_out_def)
  from 1 2 3 show ?thesis by blast
qed

section \<open>The entries that the articulation transformer emits\<close>

lemma dept_transfers_emitted:
  "dept_transfers repr cs = Inr es \<Longrightarrow>
     list_all2 (\<lambda>c e. transfer repr c = Inr e) (filter is_course cs) es"
proof (induction cs arbitrary: es)
  case Nil
  then show ?case by simp
next
  case (Cons c cs)
  from Cons.prems obtain t where t: "subscript c ''type'' = Inr t"
    by (auto simp: bindE_eq_Inr)
  show ?case
  proof (cases "t = JStr ''Course''")
    case True
    with Cons.prems t obtain e rest where e: "transfer repr c = Inr e"
      and rest: "dept_transfers repr cs = Inr rest" and es: "es = e # rest"
      by (auto simp: bindE_eq_Inr)
    from Cons.IH [OF rest] e es t True show ?thesis
      by (simp add: is_course_def)
  next
    case False
    with Cons.prems t have "dept_transfers repr cs = Inr es" by simp
    from Cons.IH [OF this] t False show ?thesis
      by (simp add: is_course_def)
  qed
qed

lemma all_transfers_emitted:
  "all_transfers repr depts = Inr es \<Longrightarrow>
     list_all2 (\<lambda>c e. transfer repr c = Inr e) (filter is_course (all_courses depts)) es"
proof (induction depts arbitrary: es)
  case Nil
  then show ?case by (simp add: all_courses_def)
next
  case (Cons d ds)
  from Cons.prems obtain a cs entries more where a: "subscript d ''articulations'' = Inr a"
    and cs: "py_iter a = Inr cs" and entries: "dept_transfers repr cs = Inr entries"
    and more: "all_transfers repr ds = Inr more" and es: "es = entries @ more"
    by (auto simp: bindE_eq_Inr)
  from a cs have dc: "dept_courses d = cs" by (simp add: dept_courses_def)
  have 1: "list_all2 (\<lambda>c e. transfer repr c = Inr e) (filter is_course cs) entries"
    using entries by (rule dept_transfers_emitted)
  have 2: "list_all2 (\<lambda>c e. transfer repr c = Inr e) (filter is_course (all_courses ds)) more"
    using more by (rule Cons.IH)
  from 1 2 have "list_all2 (\<lambda>c e. transfer repr c = Inr e)
      (filter is_course cs @ filter is_course (all_courses ds)) (entries @ more)"
    by (rule list_all2_appendI)
  with dc es show ?case by (simp add: all_courses_def)
qed

lemma emitted_from_course:
  assumes "list_all2 (\<lambda>c e. transfer repr c = Inr e) cs es" and "e \<in> set es"
  shows "\<exists>c \<in> set cs. transfer repr c = Inr e"
  using assms by (induction rule: list_all2_induct) auto

lemma transfers_to_nonempty:
  assumes "transfers_to repr course = Inr tt"
  shows "\<exists>xs. tt = JArr xs \<and> xs \<noteq> []"
  using assms
  by (auto simp: transfers_to_def bindE_eq_Inr no_equivalent_def split: if_splits)

lemma transfer_transfers_to:
  assumes "transfer repr course = Inr entry"
  shows "transfers_to_set entry"
proof -
  from assms obtain tt kvs where tt: "transfers_to repr course = Inr tt"
    and entry: "entry = JObj kvs" and kvs: "map_of kvs ''transfers_to'' = Some tt"
    by (auto simp: transfer_def bindE_eq_Inr)
  from tt obtain xs where "tt = JArr xs" and "xs \<noteq> []"
    using transfers_to_nonempty by blast
  with entry kvs show ?thesis by (simp add: transfers_to_set_def)
qed


lemma to_courses_strings:
  "to_courses repr tcs = Inr strings \<Longrightarrow> x \<in> set strings \<Longrightarrow> \<exists>s. x = JStr s"
proof (induction tcs arbitrary: strings)
  case Nil
  then show ?case by simp
next
  case (Cons tc tcs)
  from Cons.prems(1) obtain s rest where rest: "to_courses repr tcs = Inr rest"
    and strings: "strings = JStr s # rest"
    by (auto simp: bindE_eq_Inr)
  with Cons.prems(2) Cons.IH [OF rest] show ?case by auto
qed

lemma item_courses_strings:
  "item_courses repr items = Inr strings \<Longrightarrow> x \<in> set strings \<Longrightarrow> \<exists>s. x = JStr s"
proof (induction items arbitrary: strings)
  case Nil
  then show ?case by simp
next
  case (Cons item items)
  from Cons.prems(1) obtain has where has: "has_items item = Inr has"
    by (auto simp: bindE_eq_Inr)
  show ?case
  proof (cases has)
    case True
    with Cons.prems(1) has obtain tcs here more where here: "to_courses repr tcs = Inr here"
      and more: "item_courses repr items = Inr more" and strings: "strings = here @ more"
      by (auto simp: bindE_eq_Inr)
    from Cons.prems(2) strings have "x \<in> set here \<or> x \<in> set more" by simp
    then show ?thesis
      using to_courses_strings [OF here] Cons.IH [OF more] by blast
  next
    case False
    with Cons.prems(1) has have "item_courses repr items = Inr strings" by simp
    then show ?thesis using Cons.prems(2) by (rule Cons.IH)
  qed
qed

lemma transfers_to_strings:
  assumes "transfers_to repr course = Inr tt"
  shows "\<exists>xs. tt = JArr xs \<and> xs \<noteq> [] \<and> (\<forall>x \<in> set xs. \<exists>s. x = JStr s)"
proof (cases "tt = no_equivalent")
  case True
  then show ?thesis by (simp add: no_equivalent_def)
next
  case False
  with assms obtain items strings where "item_courses repr items = Inr strings"
    and "strings \<noteq> []" and "tt = JArr strings"
    by (auto simp: transfers_to_def bindE_eq_Inr split: if_splits)
  then show ?thesis using item_courses_strings by blast
qed

text \<open>
  Claim C10. Whenever the transformer emits an entry, \<open>transfers_to\<close> is set in it to a
  non-empty list: this holds for the entry built for one course and for every entry of
  the list built from the department groups. The list stored is a non-empty list of
  strings.
\<close>

theorem transfers_to_never_empty:
  "(transfer repr course = Inr entry \<longrightarrow> transfers_to_set entry) \<and>
   (all_transfers repr depts = Inr es \<longrightarrow> (\<forall>e \<in> set es. transfers_to_set e)) \<and>
   (transfers_to repr course = Inr tt \<longrightarrow>
      (\<exists>xs. tt = JArr xs \<and> xs \<noteq> [] \<and> (\<forall>x \<in> set xs. \<exists>s. x = JStr s)))"
proof (intro conjI impI)
  assume "transfer repr course = Inr entry"
  then show "transfers_to_set entry" by (rule transfer_transfers_to)
next
  assume "all_transfers repr depts = Inr es"
  then have all: "list_all2 (\<lambda>c e. transfer repr c = Inr e)
      (filter is_course (all_courses depts)) es"
    by (rule all_transfers_emitted)
  show "\<forall>e \<in> set es. transfers_to_set e"
  proof
    fix e
    assume "e \<in> set es"
    with all obtain c where "transfer repr c = Inr e"
      using emitted_from_course by blast
    then show "transfers_to_set e" by (rule transfer_transfers_to)
  qed
next
  assume "transfers_to repr course = Inr tt"
  then show "\<exists>xs. tt = JArr xs \<and> xs \<noteq> [] \<and> (\<forall>x \<in> set xs. \<exists>s. x = JStr s)"
    by (rule transfers_to_strings)
qed

lemmas transfer_eval =
  transfer_def transfers_to_def py_get_def no_equivalent_def

lemma cs_1_transfer: "transfer repr_sample cs_1 = Inr cs_1_out"
  by (simp add: transfer_eval cs_1_def cs_1_out_def)

lemma phil_6_transfer: "transfer repr_sample phil_6 = Inr phil_6_out"
  by (simp add: transfer_eval phil_6_def phil_6_out_def)

lemma one_dept_transfers: "all_transfers repr_sample one_dept = Inr [cs_1_out, phil_6_out]"
proof -
  have "subscript cs_1 ''type'' = Inr (JStr ''Course'')" by (simp add: cs_1_def)
  moreover have "subscript phil_6 ''type'' = Inr (JStr ''Course'')" by (simp add: phil_6_def)
  moreover have "subscript placeholder ''type'' = Inr (JStr ''NoCourseArticulated'')"
    by (simp add: placeholder_def)
  ultimately have "dept_transfers repr_sample [cs_1, placeholder, phil_6] =
      Inr [cs_1_out, phil_6_out]"
    by (simp add: cs_1_transfer phil_6_transfer)
  then show ?thesis by (simp add: one_dept_def)
qed

theorem transfers_to_never_empty_witness:
  "all_transfers repr_sample one_dept = Inr [cs_1_out, phil_6_out] \<and>
   transfers_to_set cs_1_out \<and> transfers_to_set phil_6_out \<and>
   transfers_to repr_sample phil_6 = Inr (JArr [JStr ''No equivalent course''])"
proof -
  note rule = transfers_to_never_empty [of repr_sample phil_6 phil_6_out one_dept
      "[cs_1_out, phil_6_out]" "JArr [JStr ''No equivalent course'']"]
  have tt: "transfers_to repr_sample phil_6 = Inr (JArr [JStr ''No equivalent course''])"
    by (simp add: transfer_eval phil_6_def)
  from rule one_dept_transfers have "\<forall>e \<in> set [cs_1_out, phil_6_out]. transfers_to_set e"
    by blast
  then have "transfers_to_set cs_1_out" and "transfers_to_set phil_6_out" by simp_all
  with one_dept_transfers tt show ?thesis by blast
qed

section \<open>The source course and the units of an entry\<close>








section \<open>Which entries are emitted, and their destinations\<close>

lemma to_courses_wf:
  "list_all wf_to_course tcs \<Longrightarrow> to_courses repr tcs = Inr (map (dest_string repr) tcs)"
proof (induction tcs)
  case Nil
  show ?case by simp
next
  case (Cons tc tcs)
  from Cons.prems obtain kvs p n t where tc: "tc = JObj kvs"
    and p: "map_of kvs ''prefix'' = Some p" and n: "map_of kvs ''courseNumber'' = Some n"
    and t: "map_of kvs ''courseTitle'' = Some t"
    by (cases tc) (auto simp: wf_to_course_def)
  from Cons have rest: "to_courses repr tcs = Inr (map (dest_string repr) tcs)" by simp
  have "dest_string repr tc =
      JStr (py_format repr p @ '' '' @ py_format repr n @ '': '' @ py_format repr t)"
    by (simp add: dest_string_def tc field_def p n t)
  with rest show ?case by (simp add: tc p n t)
qed

lemma item_courses_wf:
  "list_all wf_item items \<Longrightarrow> item_courses repr items = Inr (destinations repr items)"
proof (induction items)
  case Nil
  show ?case by (simp add: destinations_def)
next
  case (Cons item items)
  from Cons have rest: "item_courses repr items = Inr (destinations repr items)" by simp
  from Cons.prems obtain kvs where item: "item = JObj kvs"
    by (cases item) (auto simp: wf_item_def)
  show ?case
  proof (cases "map_of kvs ''items''")
    case None
    then have "item_strings repr item = []" by (simp add: item_strings_def item)
    with None rest show ?thesis by (simp add: item destinations_def)
  next
    case (Some nested)
    with Cons.prems item obtain tcs where nested: "nested = JArr tcs"
      and wf: "list_all wf_to_course tcs"
      by (cases nested) (auto simp: wf_item_def)
    from Some nested have "item_strings repr item = map (dest_string repr) tcs"
      by (simp add: item_strings_def item)
    with Some nested rest to_courses_wf [OF wf] show ?thesis
      by (simp add: item destinations_def)
  qed
qed

lemma destinations_lacking:
  "list_all lacks_nested items \<Longrightarrow> destinations repr items = []"
proof (induction items)
  case Nil
  show ?case by (simp add: destinations_def)
next
  case (Cons item items)
  from Cons.prems have "item_strings repr item = []"
    by (cases item) (auto simp: lacks_nested_def item_strings_def)
  with Cons show ?case by (simp add: destinations_def)
qed

lemma transfers_to_no_articulation:
  assumes "\<not> truthy (field kvs ''sendingArticulation'')"
  shows "transfers_to repr (JObj kvs) = Inr no_equivalent"
  using assms by (simp add: transfers_to_def py_get_JObj)

lemma subscript_field:
  "truthy (field kvs k) \<Longrightarrow> subscript (JObj kvs) k = Inr (field kvs k)"
  by (cases "map_of kvs k") (simp_all add: field_def)

lemma transfers_to_no_items:
  assumes "field kvs ''sendingArticulation'' = JObj sa" and "\<not> truthy (field sa ''items'')"
  shows "transfers_to repr (JObj kvs) = Inr no_equivalent"
proof (cases "truthy (JObj sa)")
  case True
  with assms(1) have "subscript (JObj kvs) ''sendingArticulation'' = Inr (JObj sa)"
    using subscript_field [of kvs "''sendingArticulation''"] by simp
  with assms True show ?thesis by (simp add: transfers_to_def py_get_JObj)
next
  case False
  with assms(1) show ?thesis by (simp add: transfers_to_no_articulation)
qed

lemma transfers_to_items:
  assumes "field kvs ''sendingArticulation'' = JObj sa" and "field sa ''items'' = JArr items"
    and "list_all wf_item items"
  shows "transfers_to repr (JObj kvs) =
           Inr (if destinations repr items = [] then no_equivalent
                else JArr (destinations repr items))"
proof (cases "items = []")
  case True
  with assms(1,2) have "transfers_to repr (JObj kvs) = Inr no_equivalent"
    by (simp add: transfers_to_no_items)
  with True show ?thesis by (simp add: destinations_def)
next
  case False
  with assms(2) have items: "truthy (field sa ''items'')" by simp
  then have sa_ne: "truthy (JObj sa)" by (cases sa) (simp_all add: field_def)
  with assms(1) have 1: "subscript (JObj kvs) ''sendingArticulation'' = Inr (JObj sa)"
    using subscript_field [of kvs "''sendingArticulation''"] by simp
  from items assms(2) have 2: "subscript (JObj sa) ''items'' = Inr (JArr items)"
    using subscript_field [of sa "''items''"] by simp
  from assms(3) have 3: "item_courses repr items = Inr (destinations repr items)"
    by (rule item_courses_wf)
  from assms(1,2) sa_ne False 1 2 3 show ?thesis
    by (simp add: transfers_to_def py_get_JObj)
qed

lemma dept_transfers_total:
  assumes "\<forall>c \<in> set cs. has_type c"
    and "\<forall>c \<in> set cs. is_course c \<longrightarrow> transfer repr c = Inr (f c)"
  shows "dept_transfers repr cs = Inr (map f (filter is_course cs))"
  using assms
proof (induction cs)
  case Nil
  show ?case by simp
next
  case (Cons c cs)
  then have rest: "dept_transfers repr cs = Inr (map f (filter is_course cs))" by simp
  from Cons.prems(1) obtain t where t: "subscript c ''type'' = Inr t"
    by (cases "subscript c ''type''") (auto simp: has_type_def)
  show ?case
  proof (cases "t = JStr ''Course''")
    case True
    with t have "is_course c" by (simp add: is_course_def)
    moreover from this Cons.prems(2) have "transfer repr c = Inr (f c)" by simp
    ultimately show ?thesis using t True rest by simp
  next
    case False
    with t have "\<not> is_course c" by (simp add: is_course_def)
    with t False rest show ?thesis by simp
  qed
qed

lemma all_transfers_total:
  assumes "list_all wf_dept depts"
    and "\<forall>c \<in> set (all_courses depts). has_type c"
    and "\<forall>c \<in> set (all_courses depts). is_course c \<longrightarrow> transfer repr c = Inr (f c)"
  shows "all_transfers repr depts = Inr (map f (filter is_course (all_courses depts)))"
  using assms
proof (induction depts)
  case Nil
  show ?case by (simp add: all_courses_def)
next
  case (Cons d ds)
  from Cons.prems(1) obtain kvs cs where d: "d = JObj kvs"
    and cs: "map_of kvs ''articulations'' = Some (JArr cs)"
    by (cases d) (auto simp: wf_dept_def split: option.splits json.splits)
  then have dc: "dept_courses d = cs" by (simp add: dept_courses_def)
  then have all: "all_courses (d # ds) = cs @ all_courses ds" by (simp add: all_courses_def)
  from Cons.prems all have "dept_transfers repr cs = Inr (map f (filter is_course cs))"
    by (intro dept_transfers_total) auto
  moreover from Cons all
  have "all_transfers repr ds = Inr (map f (filter is_course (all_courses ds)))"
    by simp
  moreover from all d have "all_courses (JObj kvs # ds) = cs @ all_courses ds" by simp
  ultimately show ?case by (simp add: d cs)
qed


text \<open>
  Claim C2, as the code has it. From department groups that each hold a list of entries
  with a type, the transformer emits one entry for each entry of type \<open>Course\<close>, in order,
  and nothing for the others, whatever else they hold. The \<open>transfers_to\<close> of an entry is
  the one-element list \<open>No equivalent course\<close> when \<open>sendingArticulation\<close> is absent (or
  falsy), when its \<open>items\<close> are absent or empty, and when no destination string is
  collected from them: when all items lack nested items, and also when the nested lists
  that exist are empty. Otherwise it is the list of the strings
  \<open>prefix courseNumber: courseTitle\<close> collected from the nested items, in order.
\<close>

theorem course_entries_and_destinations:
  "(list_all wf_dept depts \<and> (\<forall>c \<in> set (all_courses depts). has_type c) \<and>
    (\<forall>c \<in> set (all_courses depts). is_course c \<longrightarrow> transfer repr c = Inr (f c)) \<longrightarrow>
      all_transfers repr depts = Inr (map f (filter is_course (all_courses depts)))) \<and>
   (all_transfers repr depts = Inr es \<longrightarrow>
      list_all2 (\<lambda>c e. transfer repr c = Inr e) (filter is_course (all_courses depts)) es) \<and>
   (\<not> truthy (field kvs ''sendingArticulation'') \<longrightarrow>
      transfers_to repr (JObj kvs) = Inr no_equivalent) \<and>
   (field kvs ''sendingArticulation'' = JObj sa \<and> \<not> truthy (field sa ''items'') \<longrightarrow>
      transfers_to repr (JObj kvs) = Inr no_equivalent) \<and>
   (field kvs ''sendingArticulation'' = JObj sa \<and> field sa ''items'' = JArr items \<and>
    list_all wf_item items \<longrightarrow>
      transfers_to repr (JObj kvs) =
        Inr (if destinations repr items = [] then no_equivalent
             else JArr (destinations repr items))) \<and>
   (list_all lacks_nested items \<longrightarrow> destinations repr items = []) \<and>
   no_equivalent = JArr [JStr ''No equivalent course'']"
proof (intro conjI impI)
  assume "list_all wf_dept depts \<and> (\<forall>c \<in> set (all_courses depts). has_type c) \<and>
    (\<forall>c \<in> set (all_courses depts). is_course c \<longrightarrow> transfer repr c = Inr (f c))"
  then show "all_transfers repr depts = Inr (map f (filter is_course (all_courses depts)))"
    by (intro all_transfers_total) simp_all
next
  assume "all_transfers repr depts = Inr es"
  then show "list_all2 (\<lambda>c e. transfer repr c = Inr e)
      (filter is_course (all_courses depts)) es"
    by (rule all_transfers_emitted)
next
  assume "\<not> truthy (field kvs ''sendingArticulation'')"
  then show "transfers_to repr (JObj kvs) = Inr no_equivalent"
    by (rule transfers_to_no_articulation)
next
  assume "field kvs ''sendingArticulation'' = JObj sa \<and> \<not> truthy (field sa ''items'')"
  then show "transfers_to repr (JObj kvs) = Inr no_equivalent"
    by (intro transfers_to_no_items [of kvs sa]) simp_all
next
  assume "field kvs ''sendingArticulation'' = JObj sa \<and> field sa ''items'' = JArr items \<and>
    list_all wf_item items"
  then show "transfers_to repr (JObj kvs) =
        Inr (if destinations repr items = [] then no_equivalent
             else JArr (destinations repr items))"
    by (intro transfers_to_items [of kvs sa]) simp_all
next
  assume "list_all lacks_nested items"
  then show "destinations repr items = []" by (rule destinations_lacking)
next
  show "no_equivalent = JArr [JStr ''No equivalent course'']" by (simp add: no_equivalent_def)
qed

lemma cs_1_fields: "cs_1 = JObj cs_1_fields"
  by (simp add: cs_1_def cs_1_fields_def cs_1_info_def)

lemma one_dept_courses: "all_courses one_dept = [cs_1, placeholder, phil_6]"
  by (simp add: all_courses_def dept_courses_def one_dept_def)

lemma sample_types:
  "is_course cs_1" "is_course phil_6" "\<not> is_course placeholder"
  "has_type cs_1" "has_type phil_6" "has_type placeholder"
  by (simp_all add: is_course_def has_type_def cs_1_def phil_6_def placeholder_def)

lemma cs_1_not_phil_6: "phil_6 \<noteq> cs_1"
  by (simp add: cs_1_def phil_6_def)

theorem course_entries_and_destinations_witness:
  "all_transfers repr_sample one_dept = Inr [cs_1_out, phil_6_out] \<and>
   transfers_to repr_sample cs_1 = Inr (JArr [JStr ''CS 101: Intro'']) \<and>
   transfers_to repr_sample phil_6 = Inr (JArr [JStr ''No equivalent course'']) \<and>
   transfers_to repr_sample (JObj [(''sendingArticulation'', JObj [(''name'', JNull)])]) =
     Inr (JArr [JStr ''No equivalent course'']) \<and>
   destinations repr_sample [JObj [(''name'', JNull)]] = []"
proof -
  let ?to = "JObj [(''prefix'', JStr ''CS''), (''courseNumber'', JStr ''101''),
              (''courseTitle'', JStr ''Intro'')]"
  let ?items = "[JObj [(''items'', JArr [?to])]]"
  note cs = course_entries_and_destinations [of one_dept repr_sample sample_entry
      "[cs_1_out, phil_6_out]" cs_1_fields "[(''items'', JArr ?items)]" ?items]
  note phil = course_entries_and_destinations [of one_dept repr_sample sample_entry
      "[cs_1_out, phil_6_out]" "[(''type'', JStr ''Course''), (''course'', JObj phil_6_info)]"]
  have wf: "list_all wf_dept one_dept" by (simp add: wf_dept_def one_dept_def)
  have types: "\<forall>c \<in> set (all_courses one_dept). has_type c"
    by (simp add: one_dept_courses sample_types)
  have entries: "\<forall>c \<in> set (all_courses one_dept).
      is_course c \<longrightarrow> transfer repr_sample c = Inr (sample_entry c)"
    by (simp add: one_dept_courses sample_types sample_entry_def cs_1_transfer phil_6_transfer
        cs_1_not_phil_6)
  have "map sample_entry (filter is_course (all_courses one_dept)) = [cs_1_out, phil_6_out]"
    by (simp add: one_dept_courses sample_types sample_entry_def cs_1_not_phil_6)
  with cs wf types entries have 1: "all_transfers repr_sample one_dept = Inr [cs_1_out, phil_6_out]"
    by simp
  have "field cs_1_fields ''sendingArticulation'' = JObj [(''items'', JArr ?items)]"
    by (simp add: field_def cs_1_fields_def)
  moreover have "field [(''items'', JArr ?items)] ''items'' = JArr ?items"
    by (simp add: field_def)
  moreover have "list_all wf_item ?items"
    by (simp add: wf_item_def wf_to_course_def)
  moreover have "destinations repr_sample ?items = [JStr ''CS 101: Intro'']"
    by (simp add: destinations_def item_strings_def dest_string_def field_def)
  ultimately have 2: "transfers_to repr_sample cs_1 = Inr (JArr [JStr ''CS 101: Intro''])"
    using cs by (simp add: cs_1_fields)
  have "\<not> truthy (field [(''type'', JStr ''Course''), (''course'', JObj phil_6_info)]
      ''sendingArticulation'')"
    by (simp add: field_def)
  with phil have 3: "transfers_to repr_sample phil_6 = Inr (JArr [JStr ''No equivalent course''])"
    by (simp add: phil_6_def phil_6_info_def)
  note bare = course_entries_and_destinations [of one_dept repr_sample sample_entry
      "[cs_1_out, phil_6_out]" "[(''sendingArticulation'', JObj [(''name'', JNull)])]"
      "[(''name'', JNull)]" "[JObj [(''name'', JNull)]]"]
  have "field [(''sendingArticulation'', JObj [(''name'', JNull)])] ''sendingArticulation'' =
      JObj [(''name'', JNull)] \<and> \<not> truthy (field [(''name'', JNull)] ''items'')"
    by (simp add: field_def)
  with bare have 4: "transfers_to repr_sample
      (JObj [(''sendingArticulation'', JObj [(''name'', JNull)])]) =
     Inr (JArr [JStr ''No equivalent course''])"
    by simp
  have "list_all lacks_nested [JObj [(''name'', JNull)]]"
    by (simp add: lacks_nested_def)
  with bare have 5: "destinations repr_sample [JObj [(''name'', JNull)]] = []"
    by blast
  from 1 2 3 4 5 show ?thesis by blast
qed

text \<open>Claim C2 as stated fails on an entry whose one item has a nested list that is
  empty: the item does not lack the nested list, nothing is collected from it, and
  \<open>transfers_to\<close> is the one-element list and not the empty list collected.\<close>

theorem empty_nested_items_counterexample:
  "has_items empty_nested = Inr True \<and> \<not> lacks_nested empty_nested \<and>
   destinations repr_sample [empty_nested] = [] \<and>
   transfers_to repr_sample hist_17 = Inr (JArr [JStr ''No equivalent course''])"
proof -
  have 1: "has_items empty_nested = Inr True" by (simp add: empty_nested_def)
  have 2: "\<not> lacks_nested empty_nested" by (simp add: lacks_nested_def empty_nested_def)
  have 3: "destinations repr_sample [empty_nested] = []"
    by (simp add: destinations_def item_strings_def empty_nested_def)
  have 4: "transfers_to repr_sample hist_17 = Inr (JArr [JStr ''No equivalent course''])"
    by (simp add: transfer_eval hist_17_def empty_nested_def)
  from 1 2 3 4 show ?thesis by blast
qed

section \<open>A fetch that fails in the articulation script\<close>

lemma get_transfer_data_failed:
  "get_transfer_data loads repr (Raises kind e) w =
     (Inr JNull, print (''Error fetching data: '' @ e) w)"
  by (simp add: get_transfer_data_def fetch_api_data_transfers_def)

text \<open>When \<^verbatim>\<open>requests\<close> raises, the fetcher prints the error and returns \<^verbatim>\<open>None\<close>, and
  \<^verbatim>\<open>main\<close> prints that the fetch failed and returns without an exception and without
  writing a file.\<close>

lemma failed_fetch_clean_exit:
  "fetch_api_data_transfers (Raises kind e) w =
     (JNull, w\<lparr>stdout := stdout w @ [''Error fetching data: '' @ e]\<rparr>) \<and>
   main_transfers loads repr json_path writable (Raises kind e) w =
     (Inr (), w\<lparr>stdout := stdout w @
        [''Error fetching data: '' @ e, ''Failed to fetch data from API'']\<rparr>) \<and>
   files (snd (main_transfers loads repr json_path writable (Raises kind e) w)) = files w"
proof -
  have fetch: "fetch_api_data_transfers (Raises kind e) w =
     (JNull, w\<lparr>stdout := stdout w @ [''Error fetching data: '' @ e]\<rparr>)"
    by (simp add: fetch_api_data_transfers_def print_def)
  have run: "main_transfers loads repr json_path writable (Raises kind e) w =
     (Inr (), w\<lparr>stdout := stdout w @
        [''Error fetching data: '' @ e, ''Failed to fetch data from API'']\<rparr>)"
    by (simp add: main_transfers_def get_transfer_data_failed print_def)
  from run have "files (snd (main_transfers loads repr json_path writable (Raises kind e) w)) =
      files w"
    by simp
  with fetch run show ?thesis by blast
qed

lemma failed_fetch_example:
  "main_transfers loads repr ''/opt/assist/simple_transfers.json'' True
     (Raises (HTTPError 503) ''503 Server Error'') \<lparr>stdout = [], files = []\<rparr> =
   (Inr (), \<lparr>stdout = [''Error fetching data: 503 Server Error'',
                         ''Failed to fetch data from API''], files = []\<rparr>)"
  by (simp add: main_transfers_def get_transfer_data_failed print_def)





section \<open>The records of the institution directory\<close>

lemma school_name_step:
  assumes "wf_names (field kvs ''names'')"
  shows "(if truthy (field kvs ''names'')
          then bindE (subscript (JObj kvs) ''names'') (\<lambda>ns.
               bindE (index0 ns) (\<lambda>first. subscript first ''name''))
          else Inr JNull) = Inr (school_name kvs)"
proof (cases "truthy (field kvs ''names'')")
  case False
  then have "school_name kvs = JNull"
    by (auto simp: school_name_def split: json.splits list.splits)
  with False show ?thesis by simp
next
  case True
  with assms obtain n rest nm where names: "field kvs ''names'' = JArr (JObj n # rest)"
    and nm: "map_of n ''name'' = Some nm"
    by (auto simp: wf_names_def split: json.splits list.splits)
  from True have "subscript (JObj kvs) ''names'' = Inr (field kvs ''names'')"
    by (rule subscript_field)
  moreover from names nm have "school_name kvs = nm"
    by (simp add: school_name_def field_def)
  ultimately show ?thesis using True names nm by simp
qed

lemma parsed_step:
  assumes "wf_inst inst"
  shows "parsed (inst # rest) =
           (if has_id inst
            then bindE (parsed rest) (\<lambda>records. Inr (record_of inst # records))
            else Inl KeyError)"
proof -
  from assms obtain kvs where inst: "inst = JObj kvs" and wf: "wf_names (field kvs ''names'')"
    by (cases inst) (simp_all add: wf_inst_def)
  show ?thesis
  proof (cases "map_of kvs ''id''")
    case None
    then have "subscript (JObj kvs) ''id'' = Inl KeyError" by simp
    with wf None show ?thesis
      by (simp add: inst py_get_JObj school_name_step has_id_def del: subscript.simps)
  next
    case (Some v)
    then have "subscript (JObj kvs) ''id'' = Inr v" and "field kvs ''id'' = v"
      by (simp_all add: field_def)
    with wf Some show ?thesis
      by (simp add: inst py_get_JObj school_name_step has_id_def record_of_def
          del: subscript.simps)
  qed
qed

lemma parsed_all:
  "list_all wf_inst insts \<Longrightarrow> list_all has_id insts \<Longrightarrow> parsed insts = Inr (map record_of insts)"
  by (induction insts) (simp_all add: parsed_step del: parsed.simps(2))

lemma parsed_missing_id:
  "list_all wf_inst insts \<Longrightarrow> \<not> list_all has_id insts \<Longrightarrow> parsed insts = Inl KeyError"
proof (induction insts)
  case Nil
  then show ?case by simp
next
  case (Cons inst insts)
  show ?case
  proof (cases "has_id inst")
    case True
    with Cons have "parsed insts = Inl KeyError" by simp
    with Cons.prems True show ?thesis by (simp add: parsed_step del: parsed.simps(2))
  next
    case False
    with Cons.prems show ?thesis by (simp add: parsed_step del: parsed.simps(2))
  qed
qed

text \<open>
  Claim C9. From a directory whose institutions are objects with an \<open>id\<close>, the transformer
  produces one record for each institution, in order: \<open>schoolName\<close> is the \<open>name\<close> of the first
  entry of \<open>names\<close>, or \<^verbatim>\<open>None\<close> when \<open>names\<close> is empty, \<^verbatim>\<open>None\<close> or absent, and \<open>code\<close> is the
  \<open>id\<close>; \<^verbatim>\<open>main\<close> writes the records and prints their number. When an institution has no
  \<open>id\<close> the transformation raises \<^verbatim>\<open>KeyError\<close>: \<^verbatim>\<open>main\<close> ends with it, having written and
  printed nothing.
\<close>

theorem institution_records:
  "(list_all wf_inst insts \<and> list_all has_id insts \<longrightarrow>
      parsed insts = Inr (map record_of insts) \<and>
      main_institutions True (Returns (JArr insts)) w =
        (Inr (), print (''Wrote '' @ str_nat (length insts) @ '' schools to school_codes.txt'')
                   (write_file ''school_codes.txt'' (JArr (map record_of insts)) w))) \<and>
   (list_all wf_inst insts \<and> \<not> list_all has_id insts \<longrightarrow>
      parsed insts = Inl KeyError \<and>
      main_institutions writable (Returns (JArr insts)) w = (Inl KeyError, w)) \<and>
   record_of (JObj kvs) = JObj [(''schoolName'', school_name kvs), (''code'', field kvs ''id'')] \<and>
   (field kvs ''names'' = JArr (JObj n # rest) \<longrightarrow> school_name kvs = field n ''name'') \<and>
   (map_of kvs ''names'' = None \<or> map_of kvs ''names'' = Some JNull \<or>
    map_of kvs ''names'' = Some (JArr []) \<longrightarrow> school_name kvs = JNull) \<and>
   (map_of kvs ''id'' = Some v \<longrightarrow> field kvs ''id'' = v)"
proof (intro conjI impI)
  assume h: "list_all wf_inst insts \<and> list_all has_id insts"
  then show p: "parsed insts = Inr (map record_of insts)" by (simp add: parsed_all)
  then show "main_institutions True (Returns (JArr insts)) w =
        (Inr (), print (''Wrote '' @ str_nat (length insts) @ '' schools to school_codes.txt'')
                   (write_file ''school_codes.txt'' (JArr (map record_of insts)) w))"
    by (simp add: main_institutions_def)
next
  assume h: "list_all wf_inst insts \<and> \<not> list_all has_id insts"
  then show p: "parsed insts = Inl KeyError" by (simp add: parsed_missing_id)
  then show "main_institutions writable (Returns (JArr insts)) w = (Inl KeyError, w)"
    by (simp add: main_institutions_def)
next
  show "record_of (JObj kvs) =
      JObj [(''schoolName'', school_name kvs), (''code'', field kvs ''id'')]"
    by (simp add: record_of_def)
next
  assume "field kvs ''names'' = JArr (JObj n # rest)"
  then show "school_name kvs = field n ''name''" by (simp add: school_name_def)
next
  assume "map_of kvs ''names'' = None \<or> map_of kvs ''names'' = Some JNull \<or>
    map_of kvs ''names'' = Some (JArr [])"
  then show "school_name kvs = JNull" by (auto simp: school_name_def field_def)
next
  assume "map_of kvs ''id'' = Some v"
  then show "field kvs ''id'' = v" by (simp add: field_def)
qed

theorem institution_records_witness:
  "main_institutions True (Returns (JArr two_schools)) empty_world =
     (Inr (), \<lparr>stdout = [''Wrote 2 schools to school_codes.txt''],
              files = [(''school_codes.txt'', JArr [
                JObj [(''schoolName'', JStr ''Allan Hancock College''), (''code'', JInt 5)],
                JObj [(''schoolName'', JNull), (''code'', JInt 6)]])]\<rparr>) \<and>
   main_institutions True (Returns (JArr school_without_id)) empty_world =
     (Inl KeyError, empty_world)"
proof -
  note two = institution_records [where insts = two_schools and w = empty_world]
  note none = institution_records [where insts = school_without_id and w = empty_world
      and writable = True]
  have "list_all wf_inst two_schools \<and> list_all has_id two_schools"
    by (simp add: two_schools_def wf_inst_def wf_names_def has_id_def field_def)
  with two have "main_institutions True (Returns (JArr two_schools)) empty_world =
      (Inr (), print (''Wrote '' @ str_nat (length two_schools) @ '' schools to school_codes.txt'')
                 (write_file ''school_codes.txt'' (JArr (map record_of two_schools)) empty_world))"
    by blast
  moreover have "map record_of two_schools = [
      JObj [(''schoolName'', JStr ''Allan Hancock College''), (''code'', JInt 5)],
      JObj [(''schoolName'', JNull), (''code'', JInt 6)]]"
    by (simp add: two_schools_def record_of_def school_name_def field_def)
  moreover have "length two_schools = 2" by (simp add: two_schools_def)
  ultimately have 1: "main_institutions True (Returns (JArr two_schools)) empty_world =
     (Inr (), \<lparr>stdout = [''Wrote 2 schools to school_codes.txt''],
              files = [(''school_codes.txt'', JArr [
                JObj [(''schoolName'', JStr ''Allan Hancock College''), (''code'', JInt 5)],
                JObj [(''schoolName'', JNull), (''code'', JInt 6)]])]\<rparr>)"
    by (simp add: print_def write_file_def empty_world_def)
  have "list_all wf_inst school_without_id \<and> \<not> list_all has_id school_without_id"
    by (simp add: school_without_id_def wf_inst_def wf_names_def has_id_def field_def)
  with none have 2: "main_institutions True (Returns (JArr school_without_id)) empty_world =
     (Inl KeyError, empty_world)"
    by blast
  from 1 2 show ?thesis by (rule conjI)
qed

end
